theory Spec2Isabelle
  imports Complex_Main
begin

section \<open>Python values, exceptions and the runtime\<close>

text \<open>
  The repository is Python: values are dynamically typed, dictionaries keep insertion
  order, and every failure is an exception. Dynamic values are a datatype, dictionaries
  are association lists, and a raised exception is the left summand of a result.
  Python floats are modelled as reals (rounding is not modelled); a \<open>datetime\<close> is
  carried as its ISO-8601 text, the only thing the code reads from it. A source name with
  a leading underscore is written without it, since no Isabelle name starts with one.
\<close>

datatype pyval =
    PNone
  | PBool bool
  | PInt int
  | PFloat real
  | PStr string
  | PDatetime string
  | PList "pyval list"
  | PDict "(string \<times> pyval) list"

datatype error =
    ValueError string
  | TypeError string
  | AttributeError string
  | IndexError string
  | KeyError string
  | ClientError string
  | HTTPException nat string

text \<open>A text between single quotes.\<close>

definition quoted :: "string \<Rightarrow> string" where
  "quoted s = [CHR 0x27] @ s @ [CHR 0x27]"

text \<open>
  \<open>str(e)\<close> of an exception: its message (a \<open>KeyError\<close> prints its key quoted;
  \<open>HTTPException\<close> carries status and detail).
\<close>

fun err_str :: "error \<Rightarrow> string" where
  "err_str (ValueError m) = m"
| "err_str (TypeError m) = m"
| "err_str (AttributeError m) = m"
| "err_str (IndexError m) = m"
| "err_str (KeyError m) = quoted m"
| "err_str (ClientError m) = m"
| "err_str (HTTPException s m) = m"

text \<open>\<open>type(v).__name__\<close>.\<close>

fun type_name :: "pyval \<Rightarrow> string" where
  "type_name PNone = ''NoneType''"
| "type_name (PBool b) = ''bool''"
| "type_name (PInt i) = ''int''"
| "type_name (PFloat x) = ''float''"
| "type_name (PStr s) = ''str''"
| "type_name (PDatetime s) = ''datetime''"
| "type_name (PList xs) = ''list''"
| "type_name (PDict d) = ''dict''"

text \<open>\<open>len(v)\<close>: defined on strings, lists and dictionaries, a \<open>TypeError\<close> otherwise.\<close>

fun py_len :: "pyval \<Rightarrow> error + nat" where
  "py_len (PStr s) = Inr (length s)"
| "py_len (PList xs) = Inr (length xs)"
| "py_len (PDict d) = Inr (length d)"
| "py_len v = Inl (TypeError (''object of type '' @ [CHR 0x27] @ type_name v @ [CHR 0x27] @ '' has no len()''))"

text \<open>Truthiness, as \<open>if v:\<close> tests it.\<close>

fun py_truthy :: "pyval \<Rightarrow> bool" where
  "py_truthy PNone = False"
| "py_truthy (PBool b) = b"
| "py_truthy (PInt i) = (i \<noteq> 0)"
| "py_truthy (PFloat x) = (x \<noteq> 0)"
| "py_truthy (PStr s) = (s \<noteq> [])"
| "py_truthy (PDatetime s) = True"
| "py_truthy (PList xs) = (xs \<noteq> [])"
| "py_truthy (PDict d) = (d \<noteq> [])"

text \<open>\<open>d.get(key, default)\<close> on a dictionary held as an association list.\<close>

definition dict_get :: "(string \<times> pyval) list \<Rightarrow> string \<Rightarrow> pyval \<Rightarrow> pyval" where
  "dict_get d k dflt = (case map_of d k of None \<Rightarrow> dflt | Some v \<Rightarrow> v)"

text \<open>\<open>v.get(key, default)\<close> on a dynamic value: only a dictionary has the method.\<close>

fun py_get :: "pyval \<Rightarrow> string \<Rightarrow> pyval \<Rightarrow> error + pyval" where
  "py_get (PDict d) k dflt = Inr (dict_get d k dflt)"
| "py_get v k dflt = Inl (AttributeError ([CHR 0x27] @ type_name v @ [CHR 0x27] @ '' object has no attribute '' @ [CHR 0x27] @ ''get'' @ [CHR 0x27]))"

text \<open>Decimal text of an integer, as \<open>str(n)\<close> and \<open>f"{n}"\<close> give it.\<close>

definition digit_char :: "nat \<Rightarrow> char" where
  "digit_char d =
     (if d = 0 then CHR ''0'' else if d = 1 then CHR ''1'' else if d = 2 then CHR ''2''
      else if d = 3 then CHR ''3'' else if d = 4 then CHR ''4'' else if d = 5 then CHR ''5''
      else if d = 6 then CHR ''6'' else if d = 7 then CHR ''7'' else if d = 8 then CHR ''8''
      else CHR ''9'')"

fun str_nat :: "nat \<Rightarrow> string" where
  "str_nat n = (if n < 10 then [digit_char n] else str_nat (n div 10) @ [digit_char (n mod 10)])"

declare str_nat.simps [simp del]

definition str_int :: "int \<Rightarrow> string" where
  "str_int i = (if i < 0 then CHR ''-'' # str_nat (nat (- i)) else str_nat (nat i))"

text \<open>
  The parts of the Python runtime the code calls and this development does not compute:
  \<open>uuid.uuid4()\<close> (a supply of identifiers, indexed by the number drawn so far),
  \<open>hashlib.sha256(...).hexdigest()\<close>, and \<open>str()\<close> of floats and containers.
\<close>

record pyenv =
  uuid4 :: "nat \<Rightarrow> string"
  sha256_hex :: "string \<Rightarrow> string"
  builtin_str :: "pyval \<Rightarrow> string"

text \<open>\<open>str(v)\<close> and \<open>f"{v}"\<close>; \<open>bool\<close> prints as \<open>True\<close>/\<open>False\<close>.\<close>

fun py_str :: "pyenv \<Rightarrow> pyval \<Rightarrow> string" where
  "py_str env PNone = ''None''"
| "py_str env (PBool b) = (if b then ''True'' else ''False'')"
| "py_str env (PInt i) = str_int i"
| "py_str env (PStr s) = s"
| "py_str env v = builtin_str env v"

text \<open>\<open>sep.join(xs)\<close>.\<close>

fun join :: "string \<Rightarrow> string list \<Rightarrow> string" where
  "join sep [] = []"
| "join sep [x] = x"
| "join sep (x # y # ys) = x @ sep @ join sep (y # ys)"

section \<open>Forecaster: the standard-deviation helper\<close>

text \<open>
  \<open>Forecaster._calculate_std\<close> (forecaster.py, lines 417-424):
  \<^verbatim>\<open>
  if len(values) < 2: return 0.0
  mean = sum(values) / len(values)
  variance = sum((x - mean) ** 2 for x in values) / (len(values) - 1)
  return variance ** 0.5
  \<close>
\<close>

definition calculate_std :: "real list \<Rightarrow> real" where
  "calculate_std values =
     (if length values < 2 then 0
      else
        let mean = sum_list values / real (length values);
            variance = sum_list (map (\<lambda>x. (x - mean) ^ 2) values) / (real (length values) - 1)
        in sqrt variance)"

text \<open>
  The specification's wording, stated independently of the code: the Bessel-corrected
  sample standard deviation of \<open>n\<close> points, the square root of the sum over the indices of
  the squared deviations from the arithmetic mean, divided by \<open>n - 1\<close>.
\<close>

definition sample_mean :: "real list \<Rightarrow> real" where
  "sample_mean xs = (\<Sum>i<length xs. xs ! i) / real (length xs)"

definition bessel_std :: "real list \<Rightarrow> real" where
  "bessel_std xs = sqrt ((\<Sum>i<length xs. (xs ! i - sample_mean xs)\<^sup>2) / real (length xs - 1))"

section \<open>ObjectRef validation\<close>

text \<open>\<open>s.startswith(p)\<close> and \<open>s.count(c)\<close> for a one-character \<open>c\<close>.\<close>

definition startswith :: "string \<Rightarrow> string \<Rightarrow> bool" where
  "startswith s p = (take (length p) s = p)"

definition str_count :: "string \<Rightarrow> char \<Rightarrow> nat" where
  "str_count s c = length (filter (\<lambda>x. x = c) s)"

text \<open>
  \<open>ObjectRefProcessor._validate_object_ref\<close> (object_ref.py, lines 246-255); the
  leading underscore of the source's name is dropped. The function reads only the
  string: it has no access to the warehouse or to object storage.
\<close>

definition validate_object_ref :: "string \<Rightarrow> string \<Rightarrow> error + unit" where
  "validate_object_ref object_ref object_type =
     (if \<not> startswith object_ref ''gs://'' then
        Inl (ValueError (''ObjectRef must start with '' @ [CHR 0x27] @ ''gs://'' @ [CHR 0x27]))
      else if \<not> (str_count object_ref CHR ''/'' \<ge> 2) then
        Inl (ValueError ''ObjectRef must have format: gs://bucket/path'')
      else Inr ())"

section \<open>Schema compliance of generated content\<close>

text \<open>
  A schema as \<open>ContentGenerator._validate_schema_compliance\<close> reads it: the optional key
  \<open>required\<close> (a list of field names) and the optional key \<open>properties\<close> (field name to
  field schema, of which only \<open>.get('type')\<close> is read).
\<close>

record field_schema =
  fs_type :: "string option"

record schema =
  required :: "string list option"
  properties :: "(string \<times> field_schema) list option"

record compliance =
  is_compliant :: bool
  missing_fields :: "string list"
  extra_fields :: "string list"
  type_mismatches :: "string list"

definition has_key :: "string \<Rightarrow> (string \<times> 'a) list \<Rightarrow> bool" where
  "has_key k d = (k \<in> set (map fst d))"

text \<open>First loop (lines 359-363): required fields that are not keys of the content.\<close>

fun check_required :: "(string \<times> pyval) list \<Rightarrow> string list \<Rightarrow> compliance \<Rightarrow> compliance" where
  "check_required content [] c = c"
| "check_required content (f # fs) c =
     check_required content fs
       (if \<not> has_key f content
        then c\<lparr>missing_fields := missing_fields c @ [f], is_compliant := False\<rparr>
        else c)"

text \<open>Second loop (lines 366-369): content keys that the schema does not declare.\<close>

fun check_extra :: "(string \<times> field_schema) list \<Rightarrow> string list \<Rightarrow> compliance \<Rightarrow> compliance" where
  "check_extra props [] c = c"
| "check_extra props (f # fs) c =
     check_extra props fs
       (if \<not> has_key f props then c\<lparr>extra_fields := extra_fields c @ [f]\<rparr> else c)"

definition mismatch_msg :: "string \<Rightarrow> string \<Rightarrow> string \<Rightarrow> string" where
  "mismatch_msg field expected_type actual_type =
     field @ '': expected '' @ expected_type @ '', got '' @ actual_type"

text \<open>
  Third loop (lines 372-385): for each declared property present in the content, the
  \<open>if/elif\<close> chain over the expected types \<open>string\<close>, \<open>integer\<close> and \<open>number\<close>. No other
  expected type has a branch.
\<close>

definition check_type :: "string \<Rightarrow> string \<Rightarrow> string \<Rightarrow> compliance \<Rightarrow> compliance" where
  "check_type field expected_type actual_type c =
     (if expected_type = ''string'' \<and> actual_type \<noteq> ''str'' then
        c\<lparr>type_mismatches := type_mismatches c @ [mismatch_msg field expected_type actual_type],
          is_compliant := False\<rparr>
      else if expected_type = ''integer'' \<and> actual_type \<notin> set [''int'', ''int64''] then
        c\<lparr>type_mismatches := type_mismatches c @ [mismatch_msg field expected_type actual_type],
          is_compliant := False\<rparr>
      else if expected_type = ''number'' \<and> actual_type \<notin> set [''float'', ''int'', ''int64''] then
        c\<lparr>type_mismatches := type_mismatches c @ [mismatch_msg field expected_type actual_type],
          is_compliant := False\<rparr>
      else c)"

text \<open>The body of the third loop: \<open>if field in content\<close>, then \<open>if expected_type\<close>.\<close>

definition check_field_type :: "(string \<times> pyval) list \<Rightarrow> string \<Rightarrow> field_schema \<Rightarrow> compliance \<Rightarrow> compliance" where
  "check_field_type content field fsch c =
     (case map_of content field of
        None \<Rightarrow> c
      | Some v \<Rightarrow>
          (case fs_type fsch of
             None \<Rightarrow> c
           | Some expected_type \<Rightarrow>
               if expected_type \<noteq> [] then check_type field expected_type (type_name v) c else c))"

fun check_types :: "(string \<times> pyval) list \<Rightarrow> (string \<times> field_schema) list \<Rightarrow> compliance \<Rightarrow> compliance" where
  "check_types content [] c = c"
| "check_types content ((field, fsch) # ps) c =
     check_types content ps (check_field_type content field fsch c)"

definition validate_schema_compliance :: "(string \<times> pyval) list \<Rightarrow> schema \<Rightarrow> compliance" where
  "validate_schema_compliance content sch =
     (let c0 = \<lparr>is_compliant = True, missing_fields = [], extra_fields = [], type_mismatches = []\<rparr>;
          c1 = (case required sch of None \<Rightarrow> c0 | Some fs \<Rightarrow> check_required content fs c0);
          c2 = (case properties sch of None \<Rightarrow> c1 | Some ps \<Rightarrow> check_extra ps (map fst content) c1);
          c3 = (case properties sch of None \<Rightarrow> c2 | Some ps \<Rightarrow> check_types content ps c2)
      in c3)"

text \<open>
  The specification's wording, stated independently of the code: a value does not have
  the declared primitive type (of JSON Schema: \<open>string\<close>, \<open>integer\<close>, \<open>number\<close>,
  \<open>boolean\<close>, \<open>null\<close>).
\<close>

definition primitive_type_mismatch :: "string \<Rightarrow> pyval \<Rightarrow> bool" where
  "primitive_type_mismatch declared v =
     (if declared = ''string'' then (case v of PStr s \<Rightarrow> False | _ \<Rightarrow> True)
      else if declared = ''integer'' then (case v of PInt i \<Rightarrow> False | _ \<Rightarrow> True)
      else if declared = ''number'' then (case v of PInt i \<Rightarrow> False | PFloat x \<Rightarrow> False | _ \<Rightarrow> True)
      else if declared = ''boolean'' then (case v of PBool b \<Rightarrow> False | _ \<Rightarrow> True)
      else if declared = ''null'' then (case v of PNone \<Rightarrow> False | _ \<Rightarrow> True)
      else False)"

section \<open>The warehouse client and the configuration\<close>

text \<open>
  The BigQuery client is an external collaborator. Its behaviour is a parameter: at each
  call it answers as a function of the calls issued so far and of the call's argument,
  either raising or returning. Every call is appended to the history, so that what the
  code asked of the warehouse, and how often, can be read back.

  A query is identified by the arguments its SQL text is built from; the text itself is
  written out for the vector searches (below), where a property depends on it.
\<close>

type_synonym row = "(string \<times> pyval) list"

datatype sql =
    SqlText string
  | GenerateTextQuery string string real int real int "(string \<times> pyval) list"
  | GenerateEmbeddingQuery string string "(string \<times> pyval) list"
  | ForecastQuery string string string int string "(string \<times> pyval) list"
  | EmbeddingByHashQuery string string

datatype event =
    Query sql
  | InsertRowsJson string
  | CreateTable string
  | DeleteTable string

text \<open>
  \<open>list(client.query(q).result())\<close> raises or yields rows, together with
  \<open>query_job.ended\<close> (its ISO text, or \<open>None\<close>); \<open>insert_rows_json\<close> raises or returns
  the list of per-row errors (empty on success).
\<close>

datatype query_outcome = QueryRaises error | QueryRows "row list" "string option"

datatype insert_outcome = InsertRaises error | InsertErrors "pyval list"

datatype call_outcome = CallRaises error | CallOk

record client =
  on_query :: "event list \<Rightarrow> sql \<Rightarrow> query_outcome"
  on_insert_rows_json :: "event list \<Rightarrow> string \<Rightarrow> insert_outcome"
  on_create_table :: "event list \<Rightarrow> string \<Rightarrow> call_outcome"
  on_delete_table :: "event list \<Rightarrow> string \<Rightarrow> call_outcome"

record world =
  calls :: "event list"
  uuids_drawn :: nat

definition client_query :: "client \<Rightarrow> sql \<Rightarrow> world \<Rightarrow> query_outcome \<times> world" where
  "client_query c q w = (on_query c (calls w) q, w\<lparr>calls := calls w @ [Query q]\<rparr>)"

definition client_insert_rows_json :: "client \<Rightarrow> string \<Rightarrow> world \<Rightarrow> insert_outcome \<times> world" where
  "client_insert_rows_json c table_id w =
     (on_insert_rows_json c (calls w) table_id, w\<lparr>calls := calls w @ [InsertRowsJson table_id]\<rparr>)"

definition client_create_table :: "client \<Rightarrow> string \<Rightarrow> world \<Rightarrow> call_outcome \<times> world" where
  "client_create_table c table_id w =
     (on_create_table c (calls w) table_id, w\<lparr>calls := calls w @ [CreateTable table_id]\<rparr>)"

definition client_delete_table :: "client \<Rightarrow> string \<Rightarrow> world \<Rightarrow> call_outcome \<times> world" where
  "client_delete_table c table_id w =
     (on_delete_table c (calls w) table_id, w\<lparr>calls := calls w @ [DeleteTable table_id]\<rparr>)"

definition draw_uuid :: "pyenv \<Rightarrow> world \<Rightarrow> string \<times> world" where
  "draw_uuid env w = (uuid4 env (uuids_drawn w), w\<lparr>uuids_drawn := Suc (uuids_drawn w)\<rparr>)"

text \<open>
  \<open>self.config\<close> is what \<open>get_bigquery_config()\<close> returns: a \<open>BigQueryConfig\<close> object
  (bigquery_config.py, lines 19-117) with the attributes \<open>project_id\<close>, \<open>dataset_id\<close> and
  the method \<open>get_full_table_id\<close>; the class defines no \<open>__getitem__\<close>, so subscripting
  it raises \<open>TypeError\<close>. A dictionary put in its place (as a test double may) is
  subscriptable and has no such method.
\<close>

datatype config = BigQueryConfig string string | DictConfig "(string \<times> string) list"

fun get_full_table_id :: "config \<Rightarrow> string \<Rightarrow> error + string" where
  "get_full_table_id (BigQueryConfig project_id dataset_id) table_id =
     Inr (project_id @ ''.'' @ dataset_id @ ''.'' @ table_id)"
| "get_full_table_id (DictConfig d) table_id =
     Inl (AttributeError (quoted ''dict'' @ '' object has no attribute '' @ quoted ''get_full_table_id''))"

fun config_getitem :: "config \<Rightarrow> string \<Rightarrow> error + string" where
  "config_getitem (BigQueryConfig project_id dataset_id) k =
     Inl (TypeError (quoted ''BigQueryConfig'' @ '' object is not subscriptable''))"
| "config_getitem (DictConfig d) k =
     (case map_of d k of None \<Rightarrow> Inl (KeyError k) | Some v \<Rightarrow> Inr v)"

text \<open>\<open>f"{self.config['project_id']}.{self.config['dataset_id']}.{name}"\<close>.\<close>

definition subscripted_table_id :: "config \<Rightarrow> string \<Rightarrow> error + string" where
  "subscripted_table_id cfg name =
     (case config_getitem cfg ''project_id'' of
        Inl e \<Rightarrow> Inl e
      | Inr project_id \<Rightarrow>
          (case config_getitem cfg ''dataset_id'' of
             Inl e \<Rightarrow> Inl e
           | Inr dataset_id \<Rightarrow> Inr (project_id @ ''.'' @ dataset_id @ ''.'' @ name)))"

text \<open>
  The audit writers (\<open>_store_generation\<close>, \<open>_store_embedding\<close>, \<open>_store_search\<close>,
  \<open>_store_forecast\<close>, \<open>_store_object_ref_metadata\<close>) share one shape: the whole body is
  inside \<open>try: ... except Exception\<close>, which logs and returns. The body names the
  table, builds a row and calls \<open>insert_rows_json\<close>; a raised exception and a non-empty
  error list both end in a log line. Nothing is returned; only the history changes.
\<close>

definition audit_insert :: "client \<Rightarrow> error + string \<Rightarrow> world \<Rightarrow> world" where
  "audit_insert c table_id w =
     (case table_id of
        Inl e \<Rightarrow> w
      | Inr t \<Rightarrow> snd (client_insert_rows_json c t w))"

definition store_generation :: "client \<Rightarrow> config \<Rightarrow> world \<Rightarrow> world" where
  "store_generation c cfg w = audit_insert c (get_full_table_id cfg ''generated_content'') w"

definition store_embedding :: "client \<Rightarrow> config \<Rightarrow> world \<Rightarrow> world" where
  "store_embedding c cfg w = audit_insert c (get_full_table_id cfg ''embeddings'') w"

definition store_search :: "client \<Rightarrow> config \<Rightarrow> world \<Rightarrow> world" where
  "store_search c cfg w = audit_insert c (subscripted_table_id cfg ''vector_searches'') w"

definition store_forecast :: "client \<Rightarrow> config \<Rightarrow> world \<Rightarrow> world" where
  "store_forecast c cfg w = audit_insert c (subscripted_table_id cfg ''forecasts'') w"

definition store_object_ref_metadata :: "client \<Rightarrow> config \<Rightarrow> world \<Rightarrow> world" where
  "store_object_ref_metadata c cfg w = audit_insert c (subscripted_table_id cfg ''object_refs_metadata'') w"

section \<open>TextGenerator\<close>

record gen_params =
  temperature :: real
  max_tokens :: int
  top_p :: real
  top_k :: int
  kwargs :: "(string \<times> pyval) list"

record text_generation =
  tg_id :: string
  tg_generated_text :: pyval
  tg_model_name :: string
  tg_parameters :: gen_params
  tg_input_length :: nat
  tg_output_length :: nat
  tg_timestamp :: "string option"

text \<open>
  \<open>TextGenerator.generate_text\<close> (text_generator.py, lines 26-122). The outer
  \<open>except Exception\<close> logs and re-raises, so every exception of the body is the result.
  \<open>len(generated_text)\<close> (lines 98 and 113) raises when the warehouse's value has no
  length.
\<close>

definition generate_text ::
  "client \<Rightarrow> config \<Rightarrow> pyenv \<Rightarrow> string \<Rightarrow> string \<Rightarrow> gen_params \<Rightarrow> world \<Rightarrow> (error + text_generation) \<times> world" where
  "generate_text c cfg env prompt model_name ps w =
     (let (generation_id, w1) = draw_uuid env w;
          query = GenerateTextQuery prompt model_name (temperature ps) (max_tokens ps) (top_p ps) (top_k ps) (kwargs ps);
          (outcome, w2) = client_query c query w1
      in case outcome of
           QueryRaises e \<Rightarrow> (Inl e, w2)
         | QueryRows results ended \<Rightarrow>
             (case results of
                [] \<Rightarrow> (Inl (ValueError ''No results returned from ML.GENERATE_TEXT''), w2)
              | r # rs \<Rightarrow>
                  let generated_text = dict_get r ''generated_text'' (PStr []);
                      w3 = store_generation c cfg w2
                  in case py_len generated_text of
                       Inl e \<Rightarrow> (Inl e, w3)
                     | Inr output_length \<Rightarrow>
                         (Inr \<lparr>tg_id = generation_id,
                               tg_generated_text = generated_text,
                               tg_model_name = model_name,
                               tg_parameters = ps,
                               tg_input_length = length prompt,
                               tg_output_length = output_length,
                               tg_timestamp = ended\<rparr>, w3)))"

text \<open>
  An entry of a batch result: the success dictionary of the single operation, or the
  error-tagged dictionary \<open>{'error': str(e), 'prompt' | 'content': item, 'status': 'failed'}\<close>.
\<close>

datatype 'r batch_entry =
    Succeeded 'r
  | Failed (be_error: string) (be_input: string) (be_status: string)

text \<open>\<open>'error' not in r\<close>, as the HTTP layer counts successes.\<close>

fun no_error_key :: "'r batch_entry \<Rightarrow> bool" where
  "no_error_key (Succeeded r) = True"
| "no_error_key (Failed e i s) = False"

text \<open>
  The loop of both batch operations (text_generator.py, lines 227-244; embeddings.py,
  lines 215-232), which differ only in the single operation they call and in the key
  under which the input is echoed: \<open>for item in items: try: results.append(op(item))
  except Exception as e: results.append({'error': str(e), ..., 'status': 'failed'})\<close>.
\<close>

fun batch_loop ::
  "(string \<Rightarrow> world \<Rightarrow> (error + 'r) \<times> world) \<Rightarrow> string list \<Rightarrow> 'r batch_entry list \<Rightarrow> world
     \<Rightarrow> 'r batch_entry list \<times> world" where
  "batch_loop op [] acc w = (acc, w)"
| "batch_loop op (item # rest) acc w =
     (case op item w of
        (Inr result, w') \<Rightarrow> batch_loop op rest (acc @ [Succeeded result]) w'
      | (Inl e, w') \<Rightarrow> batch_loop op rest (acc @ [Failed (err_str e) item ''failed'']) w')"

text \<open>\<open>TextGenerator.batch_generate_text\<close> (lines 210-244).\<close>

definition batch_generate_text ::
  "client \<Rightarrow> config \<Rightarrow> pyenv \<Rightarrow> string list \<Rightarrow> string \<Rightarrow> gen_params \<Rightarrow> world
     \<Rightarrow> text_generation batch_entry list \<times> world" where
  "batch_generate_text c cfg env prompts model_name ps w =
     batch_loop (\<lambda>prompt. generate_text c cfg env prompt model_name ps) prompts [] w"

section \<open>EmbeddingGenerator\<close>

record embedding_result =
  er_id :: string
  er_content_type :: string
  er_content_hash :: string
  er_embedding_vector :: pyval
  er_model_name :: string
  er_dimensions :: pyval
  er_metadata :: pyval
  er_created_at :: "string option"

text \<open>
  \<open>EmbeddingGenerator.generate_embedding\<close> (embeddings.py, lines 27-110).
  \<open>len(embedding_vector)\<close> inside \<open>_store_embedding\<close> is caught there; the one at
  line 93 is not.
\<close>

definition generate_embedding ::
  "client \<Rightarrow> config \<Rightarrow> pyenv \<Rightarrow> string \<Rightarrow> string \<Rightarrow> string \<Rightarrow> (string \<times> pyval) list \<Rightarrow> world
     \<Rightarrow> (error + embedding_result) \<times> world" where
  "generate_embedding c cfg env content content_type model_name kw w =
     (let (embedding_id, w1) = draw_uuid env w;
          content_hash = sha256_hex env content;
          query = GenerateEmbeddingQuery content model_name kw;
          (outcome, w2) = client_query c query w1
      in case outcome of
           QueryRaises e \<Rightarrow> (Inl e, w2)
         | QueryRows results ended \<Rightarrow>
             (case results of
                [] \<Rightarrow> (Inl (ValueError ''No results returned from ML.GENERATE_EMBEDDING''), w2)
              | embedding_result # rs \<Rightarrow>
                  let embedding_vector = dict_get embedding_result ''ml_generate_embedding_result'' (PList []);
                      metadata = dict_get embedding_result ''ml_generate_embedding_metadata'' (PDict []);
                      w3 = store_embedding c cfg w2
                  in case py_len embedding_vector of
                       Inl e \<Rightarrow> (Inl e, w3)
                     | Inr n \<Rightarrow>
                         (Inr \<lparr>er_id = embedding_id,
                               er_content_type = content_type,
                               er_content_hash = content_hash,
                               er_embedding_vector = embedding_vector,
                               er_model_name = model_name,
                               er_dimensions = PInt (int n),
                               er_metadata = metadata,
                               er_created_at = ended\<rparr>, w3)))"

text \<open>\<open>EmbeddingGenerator.batch_generate_embeddings\<close> (lines 196-232).\<close>

definition batch_generate_embeddings ::
  "client \<Rightarrow> config \<Rightarrow> pyenv \<Rightarrow> string list \<Rightarrow> string \<Rightarrow> string \<Rightarrow> (string \<times> pyval) list \<Rightarrow> world
     \<Rightarrow> embedding_result batch_entry list \<times> world" where
  "batch_generate_embeddings c cfg env contents content_type model_name kw w =
     batch_loop (\<lambda>content. generate_embedding c cfg env content content_type model_name kw) contents [] w"

text \<open>
  Sequencing of fallible steps inside one \<open>try\<close> block: the first exception ends the block.
\<close>

definition and_then :: "error + 'a \<Rightarrow> ('a \<Rightarrow> error + 'b) \<Rightarrow> error + 'b" where
  "and_then r f = (case r of Inl e \<Rightarrow> Inl e | Inr x \<Rightarrow> f x)"

text \<open>\<open>row.name\<close>: attribute access on a result row raises when the row has no such field.\<close>

definition row_attr :: "row \<Rightarrow> string \<Rightarrow> error + pyval" where
  "row_attr r k = (case map_of r k of None \<Rightarrow> Inl (AttributeError k) | Some v \<Rightarrow> Inr v)"

text \<open>\<open>v.isoformat() if v else None\<close>.\<close>

fun isoformat_or_none :: "pyval \<Rightarrow> error + pyval" where
  "isoformat_or_none (PDatetime s) = Inr (PStr s)"
| "isoformat_or_none v =
     (if py_truthy v then Inl (AttributeError ''isoformat'') else Inr PNone)"

record stored_embedding =
  se_id :: pyval
  se_content_type :: pyval
  se_content_hash :: pyval
  se_embedding_vector :: pyval
  se_model_name :: pyval
  se_dimensions :: pyval
  se_metadata :: pyval
  se_created_at :: pyval
  se_updated_at :: pyval

text \<open>The dictionary built from the first row (lines 267-278).\<close>

definition stored_embedding_of_row :: "row \<Rightarrow> error + stored_embedding" where
  "stored_embedding_of_row r =
     and_then (row_attr r ''id'') (\<lambda>v_id.
     and_then (row_attr r ''content_type'') (\<lambda>v_content_type.
     and_then (row_attr r ''content_hash'') (\<lambda>v_content_hash.
     and_then (row_attr r ''embedding_vector'') (\<lambda>v_embedding_vector.
     and_then (row_attr r ''model_name'') (\<lambda>v_model_name.
     and_then (row_attr r ''dimensions'') (\<lambda>v_dimensions.
     and_then (row_attr r ''metadata'') (\<lambda>v_metadata.
     and_then (and_then (row_attr r ''created_at'') isoformat_or_none) (\<lambda>v_created_at.
     and_then (and_then (row_attr r ''updated_at'') isoformat_or_none) (\<lambda>v_updated_at.
       Inr \<lparr>se_id = v_id,
            se_content_type = v_content_type,
            se_content_hash = v_content_hash,
            se_embedding_vector = v_embedding_vector,
            se_model_name = v_model_name,
            se_dimensions = v_dimensions,
            se_metadata = v_metadata,
            se_created_at = v_created_at,
            se_updated_at = v_updated_at\<rparr>)))))))))"

text \<open>
  \<open>EmbeddingGenerator.get_embedding_by_hash\<close> (lines 234-286): every exception of the
  body is caught and turned into \<open>None\<close>.
\<close>

definition get_embedding_by_hash ::
  "client \<Rightarrow> config \<Rightarrow> string \<Rightarrow> world \<Rightarrow> stored_embedding option \<times> world" where
  "get_embedding_by_hash c cfg content_hash w =
     (case get_full_table_id cfg ''embeddings'' of
        Inl e \<Rightarrow> (None, w)
      | Inr table_id \<Rightarrow>
          let (outcome, w1) = client_query c (EmbeddingByHashQuery table_id content_hash) w
          in case outcome of
               QueryRaises e \<Rightarrow> (None, w1)
             | QueryRows results ended \<Rightarrow>
                 (case results of
                    [] \<Rightarrow> (None, w1)
                  | r # rs \<Rightarrow>
                      (case stored_embedding_of_row r of
                         Inl e \<Rightarrow> (None, w1)
                       | Inr rec \<Rightarrow> (Some rec, w1))))"

text \<open>The \<open>dimensions\<close> field is the length of the \<open>embedding_vector\<close> field.\<close>

definition dimensions_match :: "pyval \<Rightarrow> pyval \<Rightarrow> bool" where
  "dimensions_match dimensions embedding_vector =
     (case py_len embedding_vector of
        Inl e \<Rightarrow> False
      | Inr n \<Rightarrow> dimensions = PInt (int n))"

section \<open>VectorSearch\<close>

definition nl :: string where
  "nl = [CHR 0x0A]"

text \<open>
  \<open>VectorSearch._build_vector_search_query\<close> (vector_search.py, lines 230-256): the
  f-string, line by line. \<open>str(query_embedding)\<close> is the runtime's text of a list of
  floats.
\<close>

definition build_vector_search_query ::
  "pyenv \<Rightarrow> real list \<Rightarrow> string \<Rightarrow> string \<Rightarrow> int \<Rightarrow> string \<Rightarrow> string" where
  "build_vector_search_query env query_embedding table_id embedding_column k distance_type =
     (let embedding_str = builtin_str env (PList (map PFloat query_embedding))
      in nl @ ''        SELECT '' @ nl
         @ ''            *,'' @ nl
         @ ''            VECTOR_SEARCH('' @ nl
         @ ''                '' @ embedding_column @ '','' @ nl
         @ ''                '' @ quoted embedding_str @ '','' @ nl
         @ ''                top_k => '' @ str_int k @ '','' @ nl
         @ ''                distance_type => '' @ quoted distance_type @ nl
         @ ''            ) as similarity_score'' @ nl
         @ ''        FROM `'' @ table_id @ ''`'' @ nl
         @ ''        ORDER BY similarity_score DESC'' @ nl
         @ ''        LIMIT '' @ str_int k @ nl
         @ ''        '')"

text \<open>
  One iteration of the filter loop (lines 274-285): the condition appended for a column
  and its value, if any. \<open>bool\<close> is a subclass of \<open>int\<close>, so it takes the numeric
  branch; \<open>value[0]\<close> of an empty list raises \<open>IndexError\<close>; a value of any other type
  appends nothing.
\<close>

fun filter_condition :: "pyenv \<Rightarrow> string \<Rightarrow> pyval \<Rightarrow> error + string option" where
  "filter_condition env column (PStr s) = Inr (Some (''`'' @ column @ ''` = '' @ quoted s))"
| "filter_condition env column (PInt i) = Inr (Some (''`'' @ column @ ''` = '' @ py_str env (PInt i)))"
| "filter_condition env column (PFloat x) = Inr (Some (''`'' @ column @ ''` = '' @ py_str env (PFloat x)))"
| "filter_condition env column (PBool b) = Inr (Some (''`'' @ column @ ''` = '' @ py_str env (PBool b)))"
| "filter_condition env column (PList vs) =
     (case vs of
        [] \<Rightarrow> Inl (IndexError ''list index out of range'')
      | v0 # _ \<Rightarrow>
          let values_str =
                (case v0 of
                   PStr s \<Rightarrow> join '', '' (map (\<lambda>v. quoted (py_str env v)) vs)
                 | _ \<Rightarrow> join '', '' (map (py_str env) vs))
          in Inr (Some (''`'' @ column @ ''` IN ('' @ values_str @ '')'')))"
| "filter_condition env column v = Inr None"

fun where_conditions :: "pyenv \<Rightarrow> (string \<times> pyval) list \<Rightarrow> error + string list" where
  "where_conditions env [] = Inr []"
| "where_conditions env ((column, v) # rest) =
     (case filter_condition env column v of
        Inl e \<Rightarrow> Inl e
      | Inr cond \<Rightarrow>
          (case where_conditions env rest of
             Inl e \<Rightarrow> Inl e
           | Inr conds \<Rightarrow> Inr ((case cond of None \<Rightarrow> [] | Some t \<Rightarrow> [t]) @ conds)))"

text \<open>\<open>where_clause\<close> and \<open>where_sql\<close> (lines 287-288).\<close>

definition where_sql_of :: "string list \<Rightarrow> string" where
  "where_sql_of conds =
     (let where_clause = (if conds \<noteq> [] then join '' AND '' conds else [])
      in if where_clause \<noteq> [] then ''WHERE '' @ where_clause else [])"

text \<open>\<open>VectorSearch._build_filtered_vector_search_query\<close> (lines 258-304).\<close>

definition build_filtered_vector_search_query ::
  "pyenv \<Rightarrow> real list \<Rightarrow> string \<Rightarrow> string \<Rightarrow> (string \<times> pyval) list \<Rightarrow> int \<Rightarrow> string \<Rightarrow> error + string" where
  "build_filtered_vector_search_query env query_embedding table_id embedding_column filter_conditions k distance_type =
     (let embedding_str = builtin_str env (PList (map PFloat query_embedding))
      in case where_conditions env filter_conditions of
           Inl e \<Rightarrow> Inl e
         | Inr conds \<Rightarrow>
             Inr (nl @ ''        SELECT '' @ nl
                  @ ''            *,'' @ nl
                  @ ''            VECTOR_SEARCH('' @ nl
                  @ ''                '' @ embedding_column @ '','' @ nl
                  @ ''                '' @ quoted embedding_str @ '','' @ nl
                  @ ''                top_k => '' @ str_int k @ '','' @ nl
                  @ ''                distance_type => '' @ quoted distance_type @ nl
                  @ ''            ) as similarity_score'' @ nl
                  @ ''        FROM `'' @ table_id @ ''`'' @ nl
                  @ ''        '' @ where_sql_of conds @ nl
                  @ ''        ORDER BY similarity_score DESC'' @ nl
                  @ ''        LIMIT '' @ str_int k @ nl
                  @ ''        ''))"

record search_result =
  sr_id :: string
  sr_results :: "(pyval \<times> row) list"
  sr_total_results :: nat
  sr_metadata :: "(string \<times> pyval) list"

text \<open>
  \<open>_process_search_results\<close> (lines 306-329): each row becomes the pair of its
  \<open>similarity_score\<close> (popped, \<open>None\<close> when absent) and the remaining columns.
\<close>

definition process_search_results :: "row list \<Rightarrow> (pyval \<times> row) list" where
  "process_search_results results =
     map (\<lambda>r. (dict_get r ''similarity_score'' PNone, filter (\<lambda>kv. fst kv \<noteq> ''similarity_score'') r)) results"

text \<open>
  \<open>VectorSearch.search_similar\<close> (lines 26-123), called without extra keyword
  arguments. On zero rows the function logs a warning and returns a record with an empty
  result list (lines 73-84).
\<close>

definition search_similar ::
  "client \<Rightarrow> config \<Rightarrow> pyenv \<Rightarrow> real list \<Rightarrow> string \<Rightarrow> string \<Rightarrow> int \<Rightarrow> string \<Rightarrow> world
     \<Rightarrow> (error + search_result) \<times> world" where
  "search_similar c cfg env query_embedding table_id embedding_column k distance_type w =
     (let (search_id, w1) = draw_uuid env w;
          query = build_vector_search_query env query_embedding table_id embedding_column k distance_type;
          (outcome, w2) = client_query c (SqlText query) w1
      in case outcome of
           QueryRaises e \<Rightarrow> (Inl e, w2)
         | QueryRows results ended \<Rightarrow>
             if results = [] then
               (Inr \<lparr>sr_id = search_id, sr_results = [], sr_total_results = 0,
                     sr_metadata = [(''query_vector_dimensions'', PInt (int (length query_embedding))),
                                    (''distance_type'', PStr distance_type),
                                    (''top_k'', PInt k)]\<rparr>, w2)
             else
               let processed_results = process_search_results results;
                   w3 = store_search c cfg w2
               in (Inr \<lparr>sr_id = search_id, sr_results = processed_results,
                        sr_total_results = length processed_results,
                        sr_metadata = [(''query_vector_dimensions'', PInt (int (length query_embedding))),
                                       (''distance_type'', PStr distance_type),
                                       (''top_k'', PInt k),
                                       (''table_id'', PStr table_id),
                                       (''embedding_column'', PStr embedding_column)]\<rparr>, w3))"

text \<open>\<open>VectorSearch.search_with_filter\<close> (lines 125-228), likewise.\<close>

definition search_with_filter ::
  "client \<Rightarrow> config \<Rightarrow> pyenv \<Rightarrow> real list \<Rightarrow> string \<Rightarrow> string \<Rightarrow> (string \<times> pyval) list \<Rightarrow> int \<Rightarrow> string \<Rightarrow> world
     \<Rightarrow> (error + search_result) \<times> world" where
  "search_with_filter c cfg env query_embedding table_id embedding_column filter_conditions k distance_type w =
     (let (search_id, w1) = draw_uuid env w
      in case build_filtered_vector_search_query env query_embedding table_id embedding_column
                filter_conditions k distance_type of
           Inl e \<Rightarrow> (Inl e, w1)
         | Inr query \<Rightarrow>
             let (outcome, w2) = client_query c (SqlText query) w1
             in case outcome of
                  QueryRaises e \<Rightarrow> (Inl e, w2)
                | QueryRows results ended \<Rightarrow>
                    if results = [] then
                      (Inr \<lparr>sr_id = search_id, sr_results = [], sr_total_results = 0,
                            sr_metadata = [(''query_vector_dimensions'', PInt (int (length query_embedding))),
                                           (''distance_type'', PStr distance_type),
                                           (''top_k'', PInt k),
                                           (''filter_conditions'', PDict filter_conditions)]\<rparr>, w2)
                    else
                      let processed_results = process_search_results results;
                          w3 = store_search c cfg w2
                      in (Inr \<lparr>sr_id = search_id, sr_results = processed_results,
                               sr_total_results = length processed_results,
                               sr_metadata = [(''query_vector_dimensions'', PInt (int (length query_embedding))),
                                              (''distance_type'', PStr distance_type),
                                              (''top_k'', PInt k),
                                              (''table_id'', PStr table_id),
                                              (''embedding_column'', PStr embedding_column),
                                              (''filter_conditions'', PDict filter_conditions)]\<rparr>, w3))"

section \<open>Forecaster\<close>

text \<open>
  \<open>Forecaster._create_temp_table\<close> (forecaster.py, lines 227-259). The table name is
  built from a fresh identifier, the table id from \<open>self.config[...]\<close>; then
  \<open>create_table\<close>, then \<open>insert_rows_json\<close>, whose non-empty error list is raised as a
  \<open>ValueError\<close>. The \<open>except\<close> re-raises.
\<close>

definition uuid_hex :: "string \<Rightarrow> string" where
  "uuid_hex u = filter (\<lambda>ch. ch \<noteq> CHR ''-'') u"

definition create_temp_table :: "client \<Rightarrow> config \<Rightarrow> pyenv \<Rightarrow> world \<Rightarrow> (error + string) \<times> world" where
  "create_temp_table c cfg env w =
     (let (u, w1) = draw_uuid env w;
          temp_table_name = ''temp_forecast_'' @ take 8 (uuid_hex u)
      in case subscripted_table_id cfg temp_table_name of
           Inl e \<Rightarrow> (Inl e, w1)
         | Inr temp_table_id \<Rightarrow>
             let (created, w2) = client_create_table c temp_table_id w1
             in case created of
                  CallRaises e \<Rightarrow> (Inl e, w2)
                | CallOk \<Rightarrow>
                    let (inserted, w3) = client_insert_rows_json c temp_table_id w2
                    in case inserted of
                         InsertRaises e \<Rightarrow> (Inl e, w3)
                       | InsertErrors errors \<Rightarrow>
                           if errors \<noteq> [] then
                             (Inl (ValueError (''Failed to insert data into temp table: ''
                                                @ builtin_str env (PList errors))), w3)
                           else (Inr temp_table_id, w3))"

text \<open>
  \<open>Forecaster._cleanup_temp_table\<close> (lines 261-269): \<open>delete_table\<close>, any exception
  logged and swallowed.
\<close>

definition cleanup_temp_table :: "client \<Rightarrow> string \<Rightarrow> world \<Rightarrow> world" where
  "cleanup_temp_table c temp_table_id w = snd (client_delete_table c temp_table_id w)"

record forecast_record =
  fc_id :: string
  fc_forecast_result :: pyval
  fc_model_name :: string
  fc_target_column :: string
  fc_time_column :: string
  fc_forecast_horizon :: int
  fc_kwargs :: "(string \<times> pyval) list"
  fc_data_points :: nat
  fc_forecast_periods :: nat
  fc_timestamp :: pyval
  fc_model_metadata :: pyval

text \<open>\<open>len(forecast_result.get('forecast_values', []))\<close> (lines 100 and 114).\<close>

definition forecast_periods :: "pyval \<Rightarrow> error + nat" where
  "forecast_periods forecast_result =
     and_then (py_get forecast_result ''forecast_values'' (PList [])) py_len"

text \<open>
  \<open>Forecaster.forecast\<close> (lines 26-128). The body cleans up at line 84, after the
  query; the \<open>except\<close> handler (lines 120-128) cleans up when \<open>temp_table_id\<close> is bound,
  that is, when \<open>_create_temp_table\<close> has returned, and re-raises. An exception of
  \<open>_create_temp_table\<close> leaves \<open>temp_table_id\<close> unbound; an exception after line 84
  reaches the handler with \<open>temp_table_id\<close> bound.
\<close>

definition forecast ::
  "client \<Rightarrow> config \<Rightarrow> pyenv \<Rightarrow> row list \<Rightarrow> string \<Rightarrow> string \<Rightarrow> int \<Rightarrow> string \<Rightarrow> (string \<times> pyval) list \<Rightarrow> world
     \<Rightarrow> (error + forecast_record) \<times> world" where
  "forecast c cfg env time_series_data target_column time_column forecast_horizon model_name kw w =
     (let (forecast_id, w1) = draw_uuid env w
      in case create_temp_table c cfg env w1 of
           (Inl e, w2) \<Rightarrow> (Inl e, w2)
         | (Inr temp_table_id, w2) \<Rightarrow>
             let query = ForecastQuery temp_table_id target_column time_column forecast_horizon model_name kw;
                 (outcome, w3) = client_query c query w2
             in case outcome of
                  QueryRaises e \<Rightarrow> (Inl e, cleanup_temp_table c temp_table_id w3)
                | QueryRows results ended \<Rightarrow>
                    (case results of
                       [] \<Rightarrow> (Inl (ValueError ''No results returned from AI.FORECAST''),
                              cleanup_temp_table c temp_table_id w3)
                     | r # rs \<Rightarrow>
                         let forecast_result = dict_get r ''ai_forecast_result'' (PDict []);
                             w4 = cleanup_temp_table c temp_table_id w3;
                             w5 = store_forecast c cfg w4
                         in case forecast_periods forecast_result of
                              Inl e \<Rightarrow> (Inl e, cleanup_temp_table c temp_table_id w5)
                            | Inr periods \<Rightarrow>
                                (Inr \<lparr>fc_id = forecast_id,
                                      fc_forecast_result = forecast_result,
                                      fc_model_name = model_name,
                                      fc_target_column = target_column,
                                      fc_time_column = time_column,
                                      fc_forecast_horizon = forecast_horizon,
                                      fc_kwargs = kw,
                                      fc_data_points = length time_series_data,
                                      fc_forecast_periods = periods,
                                      fc_timestamp = dict_get r ''timestamp'' (PStr []),
                                      fc_model_metadata = dict_get r ''ai_forecast_metadata'' (PDict [])\<rparr>, w5)))"

text \<open>How often \<open>client.delete_table\<close> and \<open>client.create_table\<close> were issued.\<close>

fun is_delete :: "event \<Rightarrow> bool" where
  "is_delete (DeleteTable t) = True"
| "is_delete ev = False"

fun is_create :: "event \<Rightarrow> bool" where
  "is_create (CreateTable t) = True"
| "is_create ev = False"

definition deletions :: "world \<Rightarrow> nat" where
  "deletions w = length (filter is_delete (calls w))"

definition creations :: "world \<Rightarrow> nat" where
  "creations w = length (filter is_create (calls w))"

section \<open>ObjectRefProcessor\<close>

text \<open>
  \<open>ObjectRefProcessor.create_object_ref\<close> (object_ref.py, lines 26-72), called without
  extra keyword arguments: build the URI, validate it, store the metadata, return the
  URI.
\<close>

definition create_object_ref ::
  "client \<Rightarrow> config \<Rightarrow> string \<Rightarrow> string \<Rightarrow> string \<Rightarrow> world \<Rightarrow> (error + string) \<times> world" where
  "create_object_ref c cfg bucket_name file_path object_type w =
     (let object_ref = ''gs://'' @ bucket_name @ ''/'' @ file_path
      in case validate_object_ref object_ref object_type of
           Inl e \<Rightarrow> (Inl e, w)
         | Inr u \<Rightarrow> (Inr object_ref, store_object_ref_metadata c cfg w))"

section \<open>The HTTP layer\<close>

text \<open>
  The request models of main.py (lines 71-89), after validation. The handlers build
  their generators with \<open>TextGenerator()\<close> and \<open>EmbeddingGenerator()\<close>, whose client and
  configuration are parameters here.
\<close>

record TextGenerationRequest =
  req_prompt :: string
  req_model_name :: string
  req_temperature :: real
  req_max_tokens :: int
  req_top_p :: real
  req_top_k :: int

record EmbeddingRequest =
  ereq_content :: string
  ereq_content_type :: string
  ereq_model_name :: string

record 'r batch_response =
  results :: "'r batch_entry list"
  total_processed :: nat
  successful :: nat

text \<open>\<open>requests[0]\<close>.\<close>

definition first_item :: "'a list \<Rightarrow> error + 'a" where
  "first_item xs = (case xs of [] \<Rightarrow> Inl (IndexError ''list index out of range'') | x # _ \<Rightarrow> Inr x)"

text \<open>
  The handler \<open>batch_generate_text\<close> of main.py (lines 199-240); the name is prefixed,
  since \<open>TextGenerator.batch_generate_text\<close> has it too. Every exception of the body
  becomes \<open>HTTPException(status_code=500, ...)\<close>.
\<close>

definition api_batch_generate_text ::
  "client \<Rightarrow> config \<Rightarrow> pyenv \<Rightarrow> TextGenerationRequest list \<Rightarrow> world
     \<Rightarrow> (error + text_generation batch_response) \<times> world" where
  "api_batch_generate_text c cfg env requests w =
     (let prompts = map req_prompt requests
      in case first_item requests of
           Inl e \<Rightarrow> (Inl (HTTPException 500 (''Batch text generation failed: '' @ err_str e)), w)
         | Inr first_req \<Rightarrow>
             let (result, w') =
                   batch_generate_text c cfg env prompts (req_model_name first_req)
                     \<lparr>temperature = req_temperature first_req,
                      max_tokens = req_max_tokens first_req,
                      top_p = req_top_p first_req,
                      top_k = req_top_k first_req,
                      kwargs = []\<rparr> w
             in (Inr \<lparr>results = result,
                      total_processed = length result,
                      successful = length (filter no_error_key result)\<rparr>, w'))"

text \<open>The handler \<open>batch_generate_embeddings\<close> of main.py (lines 285-323).\<close>

definition api_batch_generate_embeddings ::
  "client \<Rightarrow> config \<Rightarrow> pyenv \<Rightarrow> EmbeddingRequest list \<Rightarrow> world
     \<Rightarrow> (error + embedding_result batch_response) \<times> world" where
  "api_batch_generate_embeddings c cfg env requests w =
     (let contents = map ereq_content requests
      in case first_item requests of
           Inl e \<Rightarrow> (Inl (HTTPException 500 (''Batch embedding generation failed: '' @ err_str e)), w)
         | Inr first_req \<Rightarrow>
             let (result, w') =
                   batch_generate_embeddings c cfg env contents (ereq_content_type first_req)
                     (ereq_model_name first_req) [] w
             in (Inr \<lparr>results = result,
                      total_processed = length result,
                      successful = length (filter no_error_key result)\<rparr>, w'))"

section \<open>Concrete collaborators\<close>

text \<open>
  Inputs at which the operations are evaluated: a world in which nothing has been called,
  a runtime, a dictionary configuration and the configuration object, and a client that
  answers every query and every insert in one given way and creates and deletes tables
  without error.
\<close>

definition fresh_world :: world where
  "fresh_world = \<lparr>calls = [], uuids_drawn = 0\<rparr>"

definition example_env :: pyenv where
  "example_env = \<lparr>uuid4 = (\<lambda>n. ''uuid-'' @ str_nat n), sha256_hex = (\<lambda>s. ''sha256-of-'' @ s),
                  builtin_str = (\<lambda>v. ''<str>'')\<rparr>"

definition dict_config :: config where
  "dict_config = DictConfig [(''project_id'', ''proj''), (''dataset_id'', ''ds'')]"

definition object_config :: config where
  "object_config = BigQueryConfig ''proj'' ''ds''"

definition scripted_client :: "query_outcome \<Rightarrow> insert_outcome \<Rightarrow> client" where
  "scripted_client q i =
     \<lparr>on_query = (\<lambda>h s. q), on_insert_rows_json = (\<lambda>h t. i),
      on_create_table = (\<lambda>h t. CallOk), on_delete_table = (\<lambda>h t. CallOk)\<rparr>"

text \<open>
  The entry a batch loop appends for one item, given the world in which the item's
  operation runs.
\<close>

definition entry_of :: "(string \<Rightarrow> world \<Rightarrow> (error + 'r) \<times> world) \<Rightarrow> string \<Rightarrow> world \<Rightarrow> 'r batch_entry" where
  "entry_of op item w =
     (case fst (op item w) of
        Inr result \<Rightarrow> Succeeded result
      | Inl e \<Rightarrow> Failed (err_str e) item ''failed'')"

text \<open>
  A client whose text-generation and embedding queries raise for the one input \<open>bad\<close>
  and return one well-formed row for every other input; inserts succeed.
\<close>

definition failing_on :: "string \<Rightarrow> client" where
  "failing_on bad =
     \<lparr>on_query = (\<lambda>h q.
        case q of
          GenerateTextQuery prompt m t mt tp tk kw \<Rightarrow>
            if prompt = bad then QueryRaises (ClientError ''boom'')
            else QueryRows [[(''generated_text'', PStr ''ok'')]] None
        | GenerateEmbeddingQuery content m kw \<Rightarrow>
            if content = bad then QueryRaises (ClientError ''boom'')
            else QueryRows [[(''ml_generate_embedding_result'', PList [PFloat 1, PFloat 2])]] None
        | _ \<Rightarrow> QueryRows [] None),
      on_insert_rows_json = (\<lambda>h t. InsertErrors []),
      on_create_table = (\<lambda>h t. CallOk), on_delete_table = (\<lambda>h t. CallOk)\<rparr>"

definition default_params :: gen_params where
  "default_params = \<lparr>temperature = 0.7, max_tokens = 1024, top_p = 0.9, top_k = 40, kwargs = []\<rparr>"

section \<open>Properties of the standard-deviation helper\<close>

lemma sum_list_as_index_sum: "sum_list (map f xs) = (\<Sum>i<length xs. f (xs ! i))"
  by (simp add: sum_list_sum_nth atLeast0LessThan)

lemma calculate_std_is_bessel:
  assumes "2 \<le> length xs"
  shows "calculate_std xs = bessel_std xs"
  using assms sum_list_as_index_sum[of "\<lambda>x. x" xs]
    sum_list_as_index_sum[of "\<lambda>x. (x - sample_mean xs)\<^sup>2" xs]
  by (simp add: calculate_std_def bessel_std_def sample_mean_def Let_def of_nat_diff)

text \<open>
  Claim C7. The helper returns 0 for every list of zero or one values; for every list of
  two or more values it returns the Bessel-corrected sample standard deviation; for
  \<open>[1, 2, 3]\<close> it returns 1.
\<close>

theorem calculate_std_spec:
  "(length values < 2 \<longrightarrow> calculate_std values = 0)
   \<and> (2 \<le> length values \<longrightarrow> calculate_std values = bessel_std values)
   \<and> calculate_std [1, 2, 3] = 1"
proof (intro conjI impI)
  show "calculate_std values = 0" if "length values < 2"
    using that by (simp add: calculate_std_def)
  show "calculate_std values = bessel_std values" if "2 \<le> length values"
    using that by (rule calculate_std_is_bessel)
  show "calculate_std [1, 2, 3] = 1"
    by (simp add: calculate_std_def)
qed

text \<open>Claim C7 at concrete inputs: a one-point list, and the three-point list of the claim.\<close>

theorem calculate_std_spec_witness:
  "length [7::real] < 2 \<and> calculate_std [7] = 0
   \<and> 2 \<le> length [1, 2, 3::real] \<and> calculate_std [1, 2, 3] = bessel_std [1, 2, 3]
   \<and> bessel_std [1, 2, 3] = 1"
  using calculate_std_spec [of "[7]"] calculate_std_spec [of "[1, 2, 3]"]
  by simp

section \<open>Properties of the schema-compliance check\<close>

lemma check_required_fields:
  "missing_fields (check_required content fs c) = missing_fields c @ filter (\<lambda>f. \<not> has_key f content) fs
   \<and> type_mismatches (check_required content fs c) = type_mismatches c
   \<and> extra_fields (check_required content fs c) = extra_fields c"
  by (induction fs arbitrary: c) auto

lemma check_extra_fields:
  "missing_fields (check_extra props fs c) = missing_fields c
   \<and> type_mismatches (check_extra props fs c) = type_mismatches c
   \<and> is_compliant (check_extra props fs c) = is_compliant c"
  by (induction fs arbitrary: c) auto

lemma check_type_mono:
  "missing_fields (check_type f t a c) = missing_fields c
   \<and> set (type_mismatches c) \<subseteq> set (type_mismatches (check_type f t a c))
   \<and> (is_compliant (check_type f t a c) \<longrightarrow> is_compliant c)"
  by (auto simp: check_type_def)

lemma check_field_type_mono:
  "missing_fields (check_field_type content f fsch c) = missing_fields c
   \<and> set (type_mismatches c) \<subseteq> set (type_mismatches (check_field_type content f fsch c))
   \<and> (is_compliant (check_field_type content f fsch c) \<longrightarrow> is_compliant c)"
proof (cases "map_of content f")
  case None
  then show ?thesis by (simp add: check_field_type_def)
next
  case (Some v)
  show ?thesis
  proof (cases "fs_type fsch")
    case None
    then show ?thesis using Some by (simp add: check_field_type_def)
  next
    case (Some t)
    show ?thesis
    proof (cases "t = []")
      case True
      then show ?thesis using \<open>map_of content f = Some v\<close> Some by (simp add: check_field_type_def)
    next
      case False
      then have "check_field_type content f fsch c = check_type f t (type_name v) c"
        using \<open>map_of content f = Some v\<close> Some by (simp add: check_field_type_def)
      then show ?thesis using check_type_mono[of f t "type_name v" c] by simp
    qed
  qed
qed

lemma check_types_mono:
  "missing_fields (check_types content ps c) = missing_fields c
   \<and> set (type_mismatches c) \<subseteq> set (type_mismatches (check_types content ps c))
   \<and> (is_compliant (check_types content ps c) \<longrightarrow> is_compliant c)"
proof (induction ps arbitrary: c)
  case Nil
  show ?case by simp
next
  case (Cons p ps)
  obtain field fsch where p: "p = (field, fsch)" by (cases p)
  have eq: "check_types content (p # ps) c = check_types content ps (check_field_type content field fsch c)"
    by (simp add: p)
  let ?c' = "check_field_type content field fsch c"
  have ih1: "missing_fields (check_types content ps ?c') = missing_fields ?c'"
    and ih2: "set (type_mismatches ?c') \<subseteq> set (type_mismatches (check_types content ps ?c'))"
    and ih3: "is_compliant (check_types content ps ?c') \<longrightarrow> is_compliant ?c'"
    using Cons.IH[of ?c'] by blast+
  have st1: "missing_fields ?c' = missing_fields c"
    and st2: "set (type_mismatches c) \<subseteq> set (type_mismatches ?c')"
    and st3: "is_compliant ?c' \<longrightarrow> is_compliant c"
    using check_field_type_mono[of content field fsch c] by blast+
  show ?case unfolding eq
  proof (intro conjI)
    show "missing_fields (check_types content ps ?c') = missing_fields c"
      using ih1 st1 by (rule trans)
    show "set (type_mismatches c) \<subseteq> set (type_mismatches (check_types content ps ?c'))"
      using st2 ih2 by (rule subset_trans)
    show "is_compliant (check_types content ps ?c') \<longrightarrow> is_compliant c"
      using ih3 st3 by blast
  qed
qed

lemma type_name_str: "(type_name v = ''str'') = (\<exists>s. v = PStr s)"
  by (cases v) simp_all

lemma type_name_int: "(type_name v = ''int'') = (\<exists>i. v = PInt i)"
  by (cases v) simp_all

lemma type_name_float: "(type_name v = ''float'') = (\<exists>x. v = PFloat x)"
  by (cases v) simp_all

lemma type_name_int64: "type_name v \<noteq> ''int64''"
  by (cases v) simp_all

lemma check_type_string:
  assumes "type_name v \<noteq> ''str''"
  shows "check_type f ''string'' (type_name v) c =
    c\<lparr>type_mismatches := type_mismatches c @ [mismatch_msg f ''string'' (type_name v)], is_compliant := False\<rparr>"
  using assms by (simp add: check_type_def)

lemma check_type_integer:
  assumes "type_name v \<noteq> ''int''"
  shows "check_type f ''integer'' (type_name v) c =
    c\<lparr>type_mismatches := type_mismatches c @ [mismatch_msg f ''integer'' (type_name v)], is_compliant := False\<rparr>"
  using assms type_name_int64[of v] by (simp add: check_type_def)

lemma check_type_number:
  assumes "type_name v \<noteq> ''int''" and "type_name v \<noteq> ''float''"
  shows "check_type f ''number'' (type_name v) c =
    c\<lparr>type_mismatches := type_mismatches c @ [mismatch_msg f ''number'' (type_name v)], is_compliant := False\<rparr>"
  using assms type_name_int64[of v] by (simp add: check_type_def)

lemma type_name_mismatch:
  assumes "declared \<in> {''string'', ''integer'', ''number''}" and "primitive_type_mismatch declared v"
  shows "mismatch_msg f declared (type_name v) \<in> set (type_mismatches (check_type f declared (type_name v) c))
   \<and> \<not> is_compliant (check_type f declared (type_name v) c)"
proof -
  consider "declared = ''string''" | "declared = ''integer''" | "declared = ''number''"
    using assms(1) by blast
  then show ?thesis
  proof cases
    case 1
    have "type_name v \<noteq> ''str''"
      using assms(2) unfolding 1 type_name_str by (auto simp: primitive_type_mismatch_def)
    then show ?thesis unfolding 1 by (simp add: check_type_string)
  next
    case 2
    have "type_name v \<noteq> ''int''"
      using assms(2) unfolding 2 type_name_int by (auto simp: primitive_type_mismatch_def)
    then show ?thesis unfolding 2 by (simp add: check_type_integer)
  next
    case 3
    have "type_name v \<noteq> ''int''" and "type_name v \<noteq> ''float''"
      using assms(2) unfolding 3 type_name_int type_name_float by (auto simp: primitive_type_mismatch_def)
    then show ?thesis unfolding 3 by (simp add: check_type_number)
  qed
qed

lemma check_types_reports:
  assumes "(f, fsch) \<in> set ps" and "map_of content f = Some v" and "fs_type fsch = Some declared"
    and "declared \<in> {''string'', ''integer'', ''number''}" and "primitive_type_mismatch declared v"
  shows "mismatch_msg f declared (type_name v) \<in> set (type_mismatches (check_types content ps c))
     \<and> \<not> is_compliant (check_types content ps c)"
  using assms(1)
proof (induction ps arbitrary: c)
  case Nil
  then show ?case by simp
next
  case (Cons p ps)
  obtain field fs' where p: "p = (field, fs')" by (cases p)
  let ?c' = "check_field_type content field fs' c"
  have eq: "check_types content (p # ps) c = check_types content ps ?c'"
    by (simp add: p)
  show ?case
  proof (cases "(f, fsch) = p")
    case True
    have ne: "declared \<noteq> []" using assms(4) by auto
    have c': "?c' = check_type f declared (type_name v) c"
      using True assms(2,3) p ne by (simp add: check_field_type_def)
    have "mismatch_msg f declared (type_name v) \<in> set (type_mismatches ?c') \<and> \<not> is_compliant ?c'"
      unfolding c' using type_name_mismatch[OF assms(4,5)] by blast
    then show ?thesis unfolding eq using check_types_mono[of content ps ?c'] by blast
  next
    case False
    then have "(f, fsch) \<in> set ps" using Cons.prems by auto
    then show ?thesis unfolding eq using Cons.IH by blast
  qed
qed

text \<open>
  Claim C6, as amended. For the schema \<open>{"required": ["a"], "properties": {"a": {"type":
  "string"}}}\<close> and the content \<open>{"a": 5}\<close> the report is: not compliant, no missing
  field, no extra field, and the one type mismatch \<open>a: expected string, got int\<close>. In
  general, a required field that is present, declared \<open>string\<close>, \<open>integer\<close> or
  \<open>number\<close>, and whose value is not of the declared type, is listed under the type
  mismatches and not under the missing fields, and the report is not compliant.
\<close>

theorem schema_compliance_type_mismatch:
  "validate_schema_compliance [(''a'', PInt 5)]
       \<lparr>required = Some [''a''], properties = Some [(''a'', \<lparr>fs_type = Some ''string''\<rparr>)]\<rparr>
     = \<lparr>is_compliant = False, missing_fields = [], extra_fields = [],
        type_mismatches = [''a: expected string, got int'']\<rparr>
   \<and> (required sch = Some req \<and> properties sch = Some props \<and> f \<in> set req
        \<and> map_of content f = Some v \<and> (f, fsch) \<in> set props \<and> fs_type fsch = Some declared
        \<and> declared \<in> {''string'', ''integer'', ''number''} \<and> primitive_type_mismatch declared v
      \<longrightarrow> \<not> is_compliant (validate_schema_compliance content sch)
          \<and> f \<notin> set (missing_fields (validate_schema_compliance content sch))
          \<and> mismatch_msg f declared (type_name v) \<in> set (type_mismatches (validate_schema_compliance content sch)))"
proof (intro conjI impI)
  show "validate_schema_compliance [(''a'', PInt 5)]
       \<lparr>required = Some [''a''], properties = Some [(''a'', \<lparr>fs_type = Some ''string''\<rparr>)]\<rparr>
     = \<lparr>is_compliant = False, missing_fields = [], extra_fields = [],
        type_mismatches = [''a: expected string, got int'']\<rparr>"
    by (simp add: validate_schema_compliance_def has_key_def check_field_type_def check_type_def mismatch_msg_def)
next
  assume a: "required sch = Some req \<and> properties sch = Some props \<and> f \<in> set req
        \<and> map_of content f = Some v \<and> (f, fsch) \<in> set props \<and> fs_type fsch = Some declared
        \<and> declared \<in> {''string'', ''integer'', ''number''} \<and> primitive_type_mismatch declared v"
  let ?c0 = "\<lparr>is_compliant = True, missing_fields = [], extra_fields = [], type_mismatches = []\<rparr>"
  let ?c2 = "check_extra props (map fst content) (check_required content req ?c0)"
  have v: "validate_schema_compliance content sch = check_types content props ?c2"
    using a by (simp add: validate_schema_compliance_def)
  have rep: "mismatch_msg f declared (type_name v) \<in> set (type_mismatches (check_types content props ?c2))
     \<and> \<not> is_compliant (check_types content props ?c2)"
    using check_types_reports[of f fsch props content v declared ?c2] a by blast
  have present: "has_key f content"
    using a by (auto simp: has_key_def dest: map_of_SomeD intro: rev_image_eqI)
  have miss: "missing_fields (check_types content props ?c2) = filter (\<lambda>f. \<not> has_key f content) req"
    using check_types_mono[of content props ?c2] check_extra_fields[of props "map fst content" "check_required content req ?c0"]
      check_required_fields[of content req ?c0] by simp
  show "\<not> is_compliant (validate_schema_compliance content sch)" using v rep by simp
  show "f \<notin> set (missing_fields (validate_schema_compliance content sch))" using v miss present by simp
  show "mismatch_msg f declared (type_name v) \<in> set (type_mismatches (validate_schema_compliance content sch))"
    using v rep by simp
qed

text \<open>
  Claim C6 as stated fails for a declared type outside those three: a required field
  declared \<open>boolean\<close> and holding the integer 5 has a mismatched primitive type, and the
  report is compliant with no type mismatch listed.
\<close>

theorem schema_compliance_boolean_counterexample:
  "primitive_type_mismatch ''boolean'' (PInt 5)
   \<and> validate_schema_compliance [(''a'', PInt 5)]
       \<lparr>required = Some [''a''], properties = Some [(''a'', \<lparr>fs_type = Some ''boolean''\<rparr>)]\<rparr>
     = \<lparr>is_compliant = True, missing_fields = [], extra_fields = [], type_mismatches = []\<rparr>"
  by (simp add: validate_schema_compliance_def has_key_def check_field_type_def check_type_def primitive_type_mismatch_def)

text \<open>The amended claim C6 at a concrete input: a required integer field holding a string.\<close>

theorem schema_compliance_type_mismatch_witness:
  "\<not> is_compliant (validate_schema_compliance [(''n'', PStr ''x'')]
       \<lparr>required = Some [''n''], properties = Some [(''n'', \<lparr>fs_type = Some ''integer''\<rparr>)]\<rparr>)
   \<and> ''n'' \<notin> set (missing_fields (validate_schema_compliance [(''n'', PStr ''x'')]
       \<lparr>required = Some [''n''], properties = Some [(''n'', \<lparr>fs_type = Some ''integer''\<rparr>)]\<rparr>))
   \<and> ''n: expected integer, got str'' \<in> set (type_mismatches (validate_schema_compliance [(''n'', PStr ''x'')]
       \<lparr>required = Some [''n''], properties = Some [(''n'', \<lparr>fs_type = Some ''integer''\<rparr>)]\<rparr>))"
  using schema_compliance_type_mismatch [of "\<lparr>required = Some [''n''], properties = Some [(''n'', \<lparr>fs_type = Some ''integer''\<rparr>)]\<rparr>"
      "[''n'']" "[(''n'', \<lparr>fs_type = Some ''integer''\<rparr>)]" "''n''" "[(''n'', PStr ''x'')]" "PStr ''x''"
      "\<lparr>fs_type = Some ''integer''\<rparr>" "''integer''"]
  by (simp add: primitive_type_mismatch_def mismatch_msg_def)

section \<open>Properties of ObjectRef validation\<close>

lemma startswith_gs: "startswith s ''gs://'' \<Longrightarrow> \<exists>t. s = ''gs://'' @ t"
proof -
  assume "startswith s ''gs://''"
  then have "take (length ''gs://'') s = ''gs://''" unfolding startswith_def .
  then have "s = ''gs://'' @ drop (length ''gs://'') s" by (metis append_take_drop_id)
  then show ?thesis by blast
qed

lemma gs_prefix_has_two_separators: "startswith s ''gs://'' \<Longrightarrow> 2 \<le> str_count s CHR ''/''"
  using startswith_gs[of s] by (auto simp: str_count_def)

text \<open>
  Claim C9, evaluated on the code. A string that starts with \<open>gs://\<close> already holds two
  separators, so the second check of \<open>_validate_object_ref\<close> never fails: validation
  accepts exactly the strings with that prefix. In particular \<open>gs://\<close> itself is
  accepted, and \<open>create_object_ref\<close> with an empty bucket and an empty path returns
  \<open>gs:///\<close> instead of raising.
\<close>

theorem validate_object_ref_prefix_only:
  "validate_object_ref s object_type =
     (if startswith s ''gs://'' then Inr ()
      else Inl (ValueError (''ObjectRef must start with '' @ [CHR 0x27] @ ''gs://'' @ [CHR 0x27])))
   \<and> validate_object_ref ''gs://'' object_type = Inr ()
   \<and> fst (create_object_ref c cfg [] [] object_type w) = Inr ''gs:///''"
proof (intro conjI)
  show "validate_object_ref s object_type =
     (if startswith s ''gs://'' then Inr ()
      else Inl (ValueError (''ObjectRef must start with '' @ [CHR 0x27] @ ''gs://'' @ [CHR 0x27])))"
    using gs_prefix_has_two_separators[of s] by (simp add: validate_object_ref_def)
  show "validate_object_ref ''gs://'' object_type = Inr ()"
    by (simp add: validate_object_ref_def startswith_def str_count_def)
  show "fst (create_object_ref c cfg [] [] object_type w) = Inr ''gs:///''"
    by (simp add: create_object_ref_def validate_object_ref_def startswith_def str_count_def)
qed

section \<open>Properties of the filtered vector-search query\<close>

lemma str_int_5: "str_int 5 = ''5''"
  by (simp add: str_int_def str_nat.simps digit_char_def)

text \<open>
  Claim C5. For the filter map \<open>{"category": "doc", "score": 5}\<close> the conditions are
  \<open>`category` = 'doc'\<close> and \<open>`score` = 5\<close>, and the query built is the text below: its
  WHERE clause is their conjunction, followed by \<open>ORDER BY similarity_score DESC\<close> and
  \<open>LIMIT top_k\<close>. In general a string value is compared quoted, an integer value
  unquoted, a non-empty list becomes an \<open>IN\<close> membership test over its elements, and
  several conditions are joined by \<open>AND\<close>.
\<close>

theorem filtered_query_where_clause:
  "where_conditions env [(''category'', PStr ''doc''), (''score'', PInt 5)]
     = Inr [''`category` = '' @ quoted ''doc'', ''`score` = 5'']
   \<and> build_filtered_vector_search_query env query_embedding table_id embedding_column
        [(''category'', PStr ''doc''), (''score'', PInt 5)] k distance_type
     = Inr (nl @ ''        SELECT '' @ nl
            @ ''            *,'' @ nl
            @ ''            VECTOR_SEARCH('' @ nl
            @ ''                '' @ embedding_column @ '','' @ nl
            @ ''                '' @ quoted (builtin_str env (PList (map PFloat query_embedding))) @ '','' @ nl
            @ ''                top_k => '' @ str_int k @ '','' @ nl
            @ ''                distance_type => '' @ quoted distance_type @ nl
            @ ''            ) as similarity_score'' @ nl
            @ ''        FROM `'' @ table_id @ ''`'' @ nl
            @ ''        WHERE `category` = 'doc' AND `score` = 5'' @ nl
            @ ''        ORDER BY similarity_score DESC'' @ nl
            @ ''        LIMIT '' @ str_int k @ nl
            @ ''        '')
   \<and> filter_condition env column (PStr s) = Inr (Some (''`'' @ column @ ''` = '' @ quoted s))
   \<and> filter_condition env column (PInt i) = Inr (Some (''`'' @ column @ ''` = '' @ str_int i))
   \<and> filter_condition env column (PList [PStr ''x'', PStr ''y'']) = Inr (Some (''`'' @ column @ ''` IN ('x', 'y')''))
   \<and> filter_condition env column (PList [PInt 1, PInt 2]) = Inr (Some (''`'' @ column @ ''` IN (1, 2)''))
   \<and> filter_condition env column (PList (PStr s # vs))
       = Inr (Some (''`'' @ column @ ''` IN (''
                    @ join '', '' (map (\<lambda>v. quoted (py_str env v)) (PStr s # vs)) @ '')''))
   \<and> filter_condition env column (PList (PInt i # vs))
       = Inr (Some (''`'' @ column @ ''` IN ('' @ join '', '' (map (py_str env) (PInt i # vs)) @ '')''))
   \<and> where_sql_of (c1 # c2 # cs) = ''WHERE '' @ c1 @ '' AND '' @ join '' AND '' (c2 # cs)"
proof (intro conjI)
  show wc: "where_conditions env [(''category'', PStr ''doc''), (''score'', PInt 5)]
     = Inr [''`category` = '' @ quoted ''doc'', ''`score` = 5'']"
    by (simp add: str_int_5)
  have ws: "where_sql_of [''`category` = '' @ quoted ''doc'', ''`score` = 5'']
      = ''WHERE `category` = 'doc' AND `score` = 5''"
    by (simp add: where_sql_of_def quoted_def)
  show "build_filtered_vector_search_query env query_embedding table_id embedding_column
        [(''category'', PStr ''doc''), (''score'', PInt 5)] k distance_type
     = Inr (nl @ ''        SELECT '' @ nl
            @ ''            *,'' @ nl
            @ ''            VECTOR_SEARCH('' @ nl
            @ ''                '' @ embedding_column @ '','' @ nl
            @ ''                '' @ quoted (builtin_str env (PList (map PFloat query_embedding))) @ '','' @ nl
            @ ''                top_k => '' @ str_int k @ '','' @ nl
            @ ''                distance_type => '' @ quoted distance_type @ nl
            @ ''            ) as similarity_score'' @ nl
            @ ''        FROM `'' @ table_id @ ''`'' @ nl
            @ ''        WHERE `category` = 'doc' AND `score` = 5'' @ nl
            @ ''        ORDER BY similarity_score DESC'' @ nl
            @ ''        LIMIT '' @ str_int k @ nl
            @ ''        '')"
    unfolding build_filtered_vector_search_query_def Let_def wc sum.case ws by simp
  show "filter_condition env column (PStr s) = Inr (Some (''`'' @ column @ ''` = '' @ quoted s))"
    by simp
  show "filter_condition env column (PInt i) = Inr (Some (''`'' @ column @ ''` = '' @ str_int i))"
    by simp
  show "filter_condition env column (PList [PStr ''x'', PStr ''y'']) = Inr (Some (''`'' @ column @ ''` IN ('x', 'y')''))"
    by (simp add: quoted_def)
  show "filter_condition env column (PList [PInt 1, PInt 2]) = Inr (Some (''`'' @ column @ ''` IN (1, 2)''))"
    by (simp add: str_int_def str_nat.simps digit_char_def)
  show "filter_condition env column (PList (PStr s # vs))
       = Inr (Some (''`'' @ column @ ''` IN (''
                    @ join '', '' (map (\<lambda>v. quoted (py_str env v)) (PStr s # vs)) @ '')''))"
    by simp
  show "filter_condition env column (PList (PInt i # vs))
       = Inr (Some (''`'' @ column @ ''` IN ('' @ join '', '' (map (py_str env) (PInt i # vs)) @ '')''))"
    by simp
  show "where_sql_of (c1 # c2 # cs) = ''WHERE '' @ c1 @ '' AND '' @ join '' AND '' (c2 # cs)"
    by (simp add: where_sql_of_def)
qed

section \<open>Properties of the forecaster's temporary table\<close>

lemma draw_uuid_calls [simp]: "calls (snd (draw_uuid env w)) = calls w"
  by (simp add: draw_uuid_def)

lemma create_temp_table_object_config:
  "create_temp_table c (BigQueryConfig project dataset) env w
     = (Inl (TypeError (quoted ''BigQueryConfig'' @ '' object is not subscriptable'')), snd (draw_uuid env w))"
  by (simp add: create_temp_table_def subscripted_table_id_def draw_uuid_def)

text \<open>
  What the code does guarantee: once \<open>_create_temp_table\<close> has returned, a query that
  raises, a query that returns no rows, and a body that runs to its end each issue the
  deletion exactly once.
\<close>

lemma audit_insert_deletions: "deletions (audit_insert c t w) = deletions w"
  by (cases t) (simp_all add: audit_insert_def client_insert_rows_json_def deletions_def)

lemma cleanup_deletions: "deletions (cleanup_temp_table c t w) = Suc (deletions w)"
  by (simp add: cleanup_temp_table_def client_delete_table_def deletions_def)

lemma client_query_deletions: "deletions (snd (client_query c q w)) = deletions w"
  by (simp add: client_query_def deletions_def)

lemma forecast_deletes_once_when_body_completes:
  assumes ready: "create_temp_table c cfg env (snd (draw_uuid env w)) = (Inr t, w2)"
    and body: "case on_query c (calls w2) (ForecastQuery t target_column time_column forecast_horizon model_name kw) of
                 QueryRaises e \<Rightarrow> True
               | QueryRows [] ended \<Rightarrow> True
               | QueryRows (r # rs) ended \<Rightarrow>
                   \<not> isl (forecast_periods (dict_get r ''ai_forecast_result'' (PDict [])))"
  shows "deletions (snd (forecast c cfg env time_series_data target_column time_column forecast_horizon
                          model_name kw w)) = Suc (deletions w2)"
proof -
  let ?q = "ForecastQuery t target_column time_column forecast_horizon model_name kw"
  obtain outcome w3 where cq: "client_query c ?q w2 = (outcome, w3)" by (cases "client_query c ?q w2")
  have d3: "deletions w3 = deletions w2" using client_query_deletions[of c ?q w2] cq by simp
  have oc: "outcome = on_query c (calls w2) ?q" using cq by (simp add: client_query_def)
  show ?thesis
  proof (cases outcome)
    case (QueryRaises e)
    then show ?thesis unfolding forecast_def using ready cq d3
      by (simp add: Let_def case_prod_beta cleanup_deletions)
  next
    case (QueryRows rows ended)
    show ?thesis
    proof (cases rows)
      case Nil
      then show ?thesis unfolding forecast_def using ready cq d3 QueryRows
        by (simp add: Let_def case_prod_beta cleanup_deletions)
    next
      case (Cons r rs)
      have q: "on_query c (calls w2) ?q = QueryRows (r # rs) ended"
        using oc QueryRows Cons by simp
      have "\<not> isl (forecast_periods (dict_get r ''ai_forecast_result'' (PDict [])))"
        using body unfolding q by simp
      then obtain n where "forecast_periods (dict_get r ''ai_forecast_result'' (PDict [])) = Inr n"
        by (cases "forecast_periods (dict_get r ''ai_forecast_result'' (PDict []))") auto
      then show ?thesis unfolding forecast_def using ready cq d3 QueryRows Cons
        by (simp add: Let_def case_prod_beta cleanup_deletions store_forecast_def audit_insert_deletions)
    qed
  qed
qed

text \<open>
  Claim C1, evaluated on the code. With the configuration object the repository creates,
  \<open>self.config['project_id']\<close> raises inside \<open>_create_temp_table\<close>: every inline
  forecast raises that \<open>TypeError\<close> and issues no deletion at all. With a subscriptable
  configuration, a load of the rows that reports errors leaves the created table behind
  (one creation, no deletion), and a forecast result without \<open>.get\<close> (a NULL) raises
  after the clean-up of line 84, so that the handler deletes a second time (two
  deletions).
\<close>

theorem forecast_cleanup_not_exactly_once:
  "fst (forecast c (BigQueryConfig project dataset) env time_series_data target_column time_column
          forecast_horizon model_name kw w)
     = Inl (TypeError (quoted ''BigQueryConfig'' @ '' object is not subscriptable''))
   \<and> deletions (snd (forecast c (BigQueryConfig project dataset) env time_series_data target_column
          time_column forecast_horizon model_name kw w)) = deletions w
   \<and> creations (snd (forecast (scripted_client (QueryRows [] None) (InsertErrors [PStr ''bad row'']))
          dict_config example_env [[(''ts'', PStr ''2024-01-01''), (''y'', PFloat 1)]] ''y'' ''ts'' 12 ''auto'' []
          fresh_world)) = 1
   \<and> deletions (snd (forecast (scripted_client (QueryRows [] None) (InsertErrors [PStr ''bad row'']))
          dict_config example_env [[(''ts'', PStr ''2024-01-01''), (''y'', PFloat 1)]] ''y'' ''ts'' 12 ''auto'' []
          fresh_world)) = 0
   \<and> deletions (snd (forecast (scripted_client (QueryRows [[(''ai_forecast_result'', PNone)]] None) (InsertErrors []))
          dict_config example_env [[(''ts'', PStr ''2024-01-01''), (''y'', PFloat 1)]] ''y'' ''ts'' 12 ''auto'' []
          fresh_world)) = 2"
proof (intro conjI)
  show "fst (forecast c (BigQueryConfig project dataset) env time_series_data target_column time_column
          forecast_horizon model_name kw w)
     = Inl (TypeError (quoted ''BigQueryConfig'' @ '' object is not subscriptable''))"
    by (simp add: forecast_def create_temp_table_object_config split: prod.splits)
  show "deletions (snd (forecast c (BigQueryConfig project dataset) env time_series_data target_column
          time_column forecast_horizon model_name kw w)) = deletions w"
    by (simp add: forecast_def create_temp_table_object_config deletions_def draw_uuid_def split: prod.splits)
  show "creations (snd (forecast (scripted_client (QueryRows [] None) (InsertErrors [PStr ''bad row'']))
          dict_config example_env [[(''ts'', PStr ''2024-01-01''), (''y'', PFloat 1)]] ''y'' ''ts'' 12 ''auto'' []
          fresh_world)) = 1"
    by (simp add: forecast_def create_temp_table_def subscripted_table_id_def dict_config_def
        scripted_client_def fresh_world_def draw_uuid_def client_create_table_def
        client_insert_rows_json_def creations_def Let_def)
  show "deletions (snd (forecast (scripted_client (QueryRows [] None) (InsertErrors [PStr ''bad row'']))
          dict_config example_env [[(''ts'', PStr ''2024-01-01''), (''y'', PFloat 1)]] ''y'' ''ts'' 12 ''auto'' []
          fresh_world)) = 0"
    by (simp add: forecast_def create_temp_table_def subscripted_table_id_def dict_config_def
        scripted_client_def fresh_world_def draw_uuid_def client_create_table_def
        client_insert_rows_json_def deletions_def Let_def)
  show "deletions (snd (forecast (scripted_client (QueryRows [[(''ai_forecast_result'', PNone)]] None) (InsertErrors []))
          dict_config example_env [[(''ts'', PStr ''2024-01-01''), (''y'', PFloat 1)]] ''y'' ''ts'' 12 ''auto'' []
          fresh_world)) = 2"
    by (simp add: forecast_def create_temp_table_def subscripted_table_id_def dict_config_def
        scripted_client_def fresh_world_def draw_uuid_def client_create_table_def
        client_insert_rows_json_def client_query_def client_delete_table_def cleanup_temp_table_def
        store_forecast_def audit_insert_def forecast_periods_def and_then_def dict_get_def deletions_def Let_def)
qed

section \<open>Zero result rows\<close>

text \<open>
  Claim C2, as amended. When the warehouse answers the query with zero rows, text
  generation and embedding generation raise \<open>ValueError\<close>; the vector searches
  (\<open>search_similar\<close>, and \<open>search_with_filter\<close> once its query is built) do not raise:
  they return a record with an empty result list and \<open>total_results\<close> 0.
\<close>

theorem zero_rows_outcome:
  assumes "\<forall>q. on_query c (calls w) q = QueryRows [] ended"
  shows "fst (generate_text c cfg env prompt text_model ps w)
           = Inl (ValueError ''No results returned from ML.GENERATE_TEXT'')
       \<and> fst (generate_embedding c cfg env content content_type embedding_model kw w)
           = Inl (ValueError ''No results returned from ML.GENERATE_EMBEDDING'')
       \<and> fst (search_similar c cfg env query_embedding table_id embedding_column k distance_type w)
           = Inr \<lparr>sr_id = uuid4 env (uuids_drawn w), sr_results = [], sr_total_results = 0,
                  sr_metadata = [(''query_vector_dimensions'', PInt (int (length query_embedding))),
                                 (''distance_type'', PStr distance_type),
                                 (''top_k'', PInt k)]\<rparr>
       \<and> fst (search_with_filter c cfg env query_embedding table_id embedding_column
                 filter_conditions k distance_type w)
           = (case build_filtered_vector_search_query env query_embedding table_id embedding_column
                     filter_conditions k distance_type of
                Inl e \<Rightarrow> Inl e
              | Inr query \<Rightarrow>
                  Inr \<lparr>sr_id = uuid4 env (uuids_drawn w), sr_results = [], sr_total_results = 0,
                       sr_metadata = [(''query_vector_dimensions'', PInt (int (length query_embedding))),
                                      (''distance_type'', PStr distance_type),
                                      (''top_k'', PInt k),
                                      (''filter_conditions'', PDict filter_conditions)]\<rparr>)"
  using assms
  by (simp add: generate_text_def generate_embedding_def search_similar_def search_with_filter_def
      draw_uuid_def client_query_def Let_def split: sum.splits)

text \<open>
  Claim C2 as stated fails for the vector similarity search: on zero rows
  \<open>search_similar\<close> returns a result value.
\<close>

theorem zero_rows_search_counterexample:
  "on_query (scripted_client (QueryRows [] None) (InsertErrors [])) (calls fresh_world)
      (SqlText (build_vector_search_query example_env [1, 2] ''proj.ds.embeddings'' ''embedding_vector'' 10 ''cosine''))
     = QueryRows [] None
   \<and> fst (search_similar (scripted_client (QueryRows [] None) (InsertErrors [])) object_config example_env
          [1, 2] ''proj.ds.embeddings'' ''embedding_vector'' 10 ''cosine'' fresh_world)
     = Inr \<lparr>sr_id = ''uuid-0'', sr_results = [], sr_total_results = 0,
            sr_metadata = [(''query_vector_dimensions'', PInt 2),
                           (''distance_type'', PStr ''cosine''),
                           (''top_k'', PInt 10)]\<rparr>"
  by (simp add: search_similar_def scripted_client_def fresh_world_def example_env_def draw_uuid_def
      client_query_def Let_def str_nat.simps digit_char_def)

text \<open>The amended claim C2 at a client that answers every query with zero rows.\<close>

theorem zero_rows_outcome_witness:
  "fst (generate_text (scripted_client (QueryRows [] None) (InsertErrors [])) object_config example_env
          ''hello'' ''gemini-pro'' \<lparr>temperature = 0.7, max_tokens = 1024, top_p = 0.9, top_k = 40, kwargs = []\<rparr>
          fresh_world)
     = Inl (ValueError ''No results returned from ML.GENERATE_TEXT'')
   \<and> fst (generate_embedding (scripted_client (QueryRows [] None) (InsertErrors [])) object_config example_env
          ''hello'' ''text'' ''text-embedding-001'' [] fresh_world)
     = Inl (ValueError ''No results returned from ML.GENERATE_EMBEDDING'')
   \<and> sr_results (projr (fst (search_similar (scripted_client (QueryRows [] None) (InsertErrors [])) object_config
          example_env [1, 2] ''proj.ds.embeddings'' ''embedding_vector'' 10 ''cosine'' fresh_world))) = []
   \<and> sr_results (projr (fst (search_with_filter (scripted_client (QueryRows [] None) (InsertErrors [])) object_config
          example_env [1, 2] ''proj.ds.embeddings'' ''embedding_vector'' [(''category'', PStr ''doc'')] 10 ''cosine''
          fresh_world))) = []"
proof -
  have h: "\<forall>q. on_query (scripted_client (QueryRows [] None) (InsertErrors [])) (calls fresh_world) q
             = QueryRows [] None"
    by (simp add: scripted_client_def)
  show ?thesis
    using zero_rows_outcome [OF h, where cfg = object_config and env = example_env
        and prompt = "''hello''" and text_model = "''gemini-pro''"
        and ps = "\<lparr>temperature = 0.7, max_tokens = 1024, top_p = 0.9, top_k = 40, kwargs = []\<rparr>"
        and content = "''hello''" and content_type = "''text''" and embedding_model = "''text-embedding-001''"
        and kw = "[]" and query_embedding = "[1, 2]" and table_id = "''proj.ds.embeddings''"
        and embedding_column = "''embedding_vector''" and k = 10 and distance_type = "''cosine''"
        and filter_conditions = "[(''category'', PStr ''doc'')]"]
    by (simp add: build_filtered_vector_search_query_def)
qed

section \<open>Properties of the batch operations\<close>

lemma batch_loop_step:
  "batch_loop op (item # rest) acc w = batch_loop op rest (acc @ [entry_of op item w]) (snd (op item w))"
proof (cases "op item w")
  case (Pair r w')
  then show ?thesis by (cases r) (simp_all add: entry_of_def)
qed

lemma batch_loop_acc:
  "batch_loop op items acc w = (acc @ fst (batch_loop op items [] w), snd (batch_loop op items [] w))"
proof (induction items arbitrary: acc w)
  case Nil
  show ?case by simp
next
  case (Cons item rest)
  let ?x = "entry_of op item w" and ?w' = "snd (op item w)"
  have "batch_loop op (item # rest) acc w = batch_loop op rest (acc @ [?x]) ?w'"
    by (rule batch_loop_step)
  also have "\<dots> = ((acc @ [?x]) @ fst (batch_loop op rest [] ?w'), snd (batch_loop op rest [] ?w'))"
    by (rule Cons.IH)
  finally have l: "batch_loop op (item # rest) acc w
      = (acc @ ?x # fst (batch_loop op rest [] ?w'), snd (batch_loop op rest [] ?w'))" by simp
  have "batch_loop op (item # rest) [] w = batch_loop op rest ([] @ [?x]) ?w'"
    by (rule batch_loop_step)
  also have "\<dots> = (([] @ [?x]) @ fst (batch_loop op rest [] ?w'), snd (batch_loop op rest [] ?w'))"
    by (rule Cons.IH)
  finally have r: "batch_loop op (item # rest) [] w
      = (?x # fst (batch_loop op rest [] ?w'), snd (batch_loop op rest [] ?w'))" by simp
  show ?case unfolding l r by simp
qed

lemma batch_loop_append:
  "batch_loop op (xs @ ys) acc w
     = batch_loop op ys (fst (batch_loop op xs acc w)) (snd (batch_loop op xs acc w))"
proof (induction xs arbitrary: acc w)
  case Nil
  show ?case by simp
next
  case (Cons x xs)
  show ?case unfolding append_Cons batch_loop_step Cons.IH ..
qed

lemma batch_loop_length: "length (fst (batch_loop op items acc w)) = length acc + length items"
proof (induction items arbitrary: acc w)
  case Nil
  show ?case by simp
next
  case (Cons item rest)
  show ?case unfolding batch_loop_step Cons.IH by simp
qed

lemma batch_loop_nth:
  assumes "j < length items"
  shows "fst (batch_loop op items [] w) ! j
           = entry_of op (items ! j) (snd (batch_loop op (take j items) [] w))"
proof -
  let ?pre = "batch_loop op (take j items) [] w"
  have split: "items = take j items @ (items ! j) # drop (Suc j) items"
    using assms by (simp add: id_take_nth_drop)
  have len: "length (fst ?pre) = j"
    using assms by (simp add: batch_loop_length)
  have "batch_loop op items [] w = batch_loop op (take j items @ (items ! j) # drop (Suc j) items) [] w"
    using split by simp
  also have "\<dots> = batch_loop op ((items ! j) # drop (Suc j) items) (fst ?pre) (snd ?pre)"
    by (rule batch_loop_append)
  also have "\<dots> = batch_loop op (drop (Suc j) items) (fst ?pre @ [entry_of op (items ! j) (snd ?pre)])
                      (snd (op (items ! j) (snd ?pre)))"
    by (rule batch_loop_step)
  finally have "fst (batch_loop op items [] w)
      = (fst ?pre @ [entry_of op (items ! j) (snd ?pre)])
          @ fst (batch_loop op (drop (Suc j) items) [] (snd (op (items ! j) (snd ?pre))))"
    using batch_loop_acc[of op "drop (Suc j) items" "fst ?pre @ [entry_of op (items ! j) (snd ?pre)]"]
    by simp
  then show ?thesis using len by (simp add: nth_append)
qed

lemma count_all_but_one:
  assumes "i < length xs" and "\<forall>j<length xs. P (xs ! j) = (j \<noteq> i)"
  shows "length (filter P xs) = length xs - 1"
proof -
  have split: "xs = take i xs @ (xs ! i) # drop (Suc i) xs"
    using assms(1) by (simp add: id_take_nth_drop)
  have a: "\<forall>x \<in> set (take i xs). P x"
  proof
    fix x assume "x \<in> set (take i xs)"
    then obtain j where "j < length (take i xs)" and "take i xs ! j = x"
      by (auto simp: in_set_conv_nth)
    then have "j < i" "j < length xs" "xs ! j = x" using assms(1) by auto
    then show "P x" using assms(2) by auto
  qed
  have b: "\<forall>x \<in> set (drop (Suc i) xs). P x"
  proof
    fix x assume "x \<in> set (drop (Suc i) xs)"
    then obtain j where j: "j < length (drop (Suc i) xs)" and "drop (Suc i) xs ! j = x"
      by (auto simp: in_set_conv_nth)
    then have "Suc i + j < length xs" "xs ! (Suc i + j) = x" by auto
    then show "P x" using assms(2) by auto
  qed
  have c: "\<not> P (xs ! i)" using assms by auto
  have "length (filter P xs) = length (filter P (take i xs @ (xs ! i) # drop (Suc i) xs))"
    using split by simp
  also have "\<dots> = length (take i xs) + length (drop (Suc i) xs)"
    using a b c by (simp add: filter_id_conv[THEN iffD2])
  also have "\<dots> = length xs - 1" using assms(1) by simp
  finally show ?thesis .
qed

lemma batch_loop_single_failure:
  assumes i: "i < length items"
    and one: "\<forall>j<length items. isl (fst (op (items ! j) (snd (batch_loop op (take j items) [] w)))) = (j = i)"
  shows "length (fst (batch_loop op items [] w)) = length items"
    and "\<exists>e. fst (op (items ! i) (snd (batch_loop op (take i items) [] w))) = Inl e
            \<and> fst (batch_loop op items [] w) ! i = Failed (err_str e) (items ! i) ''failed''"
    and "\<forall>j<length items. j \<noteq> i \<longrightarrow>
            (\<exists>r. fst (op (items ! j) (snd (batch_loop op (take j items) [] w))) = Inr r
                 \<and> fst (batch_loop op items [] w) ! j = Succeeded r)"
    and "length (filter no_error_key (fst (batch_loop op items [] w))) = length items - 1"
proof -
  let ?out = "fst (batch_loop op items [] w)"
  let ?res = "\<lambda>j. fst (op (items ! j) (snd (batch_loop op (take j items) [] w)))"
  show len: "length ?out = length items" by (simp add: batch_loop_length)
  have nth: "?out ! j = (case ?res j of Inr r \<Rightarrow> Succeeded r | Inl e \<Rightarrow> Failed (err_str e) (items ! j) ''failed'')"
    if "j < length items" for j
    using batch_loop_nth[OF that, of op w] by (simp add: entry_of_def)
  show "\<exists>e. ?res i = Inl e \<and> ?out ! i = Failed (err_str e) (items ! i) ''failed''"
  proof -
    have "isl (?res i)" using one i by blast
    then obtain e where "?res i = Inl e" by (cases "?res i") auto
    then show ?thesis using nth[OF i] by simp
  qed
  show succ: "\<forall>j<length items. j \<noteq> i \<longrightarrow> (\<exists>r. ?res j = Inr r \<and> ?out ! j = Succeeded r)"
  proof (intro allI impI)
    fix j assume j: "j < length items" and "j \<noteq> i"
    then have "\<not> isl (?res j)" using one by blast
    then obtain r where "?res j = Inr r" by (cases "?res j") auto
    then show "\<exists>r. ?res j = Inr r \<and> ?out ! j = Succeeded r" using nth[OF j] by simp
  qed
  have "\<forall>j<length ?out. no_error_key (?out ! j) = (j \<noteq> i)"
  proof (intro allI impI)
    fix j assume "j < length ?out"
    then have j: "j < length items" using len by simp
    show "no_error_key (?out ! j) = (j \<noteq> i)"
    proof (cases "j = i")
      case True
      have "isl (?res i)" using one i by blast
      then obtain e where "?res i = Inl e" by (cases "?res i") auto
      then show ?thesis using nth[OF i] True by simp
    next
      case False
      then obtain r where "?out ! j = Succeeded r" using succ j by blast
      then show ?thesis using False by simp
    qed
  qed
  then have "length (filter no_error_key ?out) = length ?out - 1"
    using count_all_but_one[of i ?out no_error_key] i len by simp
  then show "length (filter no_error_key ?out) = length items - 1" using len by simp
qed

text \<open>
  Claim C3. Take a batch of \<open>N\<close> inputs in which the single operation raises for the item
  at position \<open>i\<close> and for no other (each item's operation running in the world the
  earlier items left). Then \<open>batch_generate_text\<close> returns \<open>N\<close> entries; the entry at
  position \<open>i\<close> is the error-tagged record with \<open>str(e)\<close>, that input and the status
  \<open>failed\<close>; every other position holds the success record of its own input, so the
  order is the input order; and \<open>N - 1\<close> entries have no \<open>error\<close> key. The same holds for
  \<open>batch_generate_embeddings\<close>.
\<close>

theorem batch_isolates_single_failure:
  "(i < length prompts
      \<and> (\<forall>j<length prompts.
            isl (fst (generate_text c cfg env (prompts ! j) model_name ps
                   (snd (batch_generate_text c cfg env (take j prompts) model_name ps w)))) = (j = i))
    \<longrightarrow> length (fst (batch_generate_text c cfg env prompts model_name ps w)) = length prompts
        \<and> (\<exists>e. fst (generate_text c cfg env (prompts ! i) model_name ps
                      (snd (batch_generate_text c cfg env (take i prompts) model_name ps w))) = Inl e
               \<and> fst (batch_generate_text c cfg env prompts model_name ps w) ! i
                   = Failed (err_str e) (prompts ! i) ''failed'')
        \<and> (\<forall>j<length prompts. j \<noteq> i \<longrightarrow>
              (\<exists>r. fst (generate_text c cfg env (prompts ! j) model_name ps
                          (snd (batch_generate_text c cfg env (take j prompts) model_name ps w))) = Inr r
                   \<and> fst (batch_generate_text c cfg env prompts model_name ps w) ! j = Succeeded r))
        \<and> length (filter no_error_key (fst (batch_generate_text c cfg env prompts model_name ps w)))
            = length prompts - 1)
   \<and> (i' < length contents
      \<and> (\<forall>j<length contents.
            isl (fst (generate_embedding c cfg env (contents ! j) content_type embedding_model kw
                   (snd (batch_generate_embeddings c cfg env (take j contents) content_type embedding_model kw w))))
              = (j = i'))
    \<longrightarrow> length (fst (batch_generate_embeddings c cfg env contents content_type embedding_model kw w))
          = length contents
        \<and> (\<exists>e. fst (generate_embedding c cfg env (contents ! i') content_type embedding_model kw
                      (snd (batch_generate_embeddings c cfg env (take i' contents) content_type embedding_model kw w)))
                  = Inl e
               \<and> fst (batch_generate_embeddings c cfg env contents content_type embedding_model kw w) ! i'
                   = Failed (err_str e) (contents ! i') ''failed'')
        \<and> (\<forall>j<length contents. j \<noteq> i' \<longrightarrow>
              (\<exists>r. fst (generate_embedding c cfg env (contents ! j) content_type embedding_model kw
                          (snd (batch_generate_embeddings c cfg env (take j contents) content_type embedding_model kw w)))
                      = Inr r
                   \<and> fst (batch_generate_embeddings c cfg env contents content_type embedding_model kw w) ! j
                       = Succeeded r))
        \<and> length (filter no_error_key
                     (fst (batch_generate_embeddings c cfg env contents content_type embedding_model kw w)))
            = length contents - 1)"
proof (intro conjI impI)
  assume h: "i < length prompts
      \<and> (\<forall>j<length prompts.
            isl (fst (generate_text c cfg env (prompts ! j) model_name ps
                   (snd (batch_generate_text c cfg env (take j prompts) model_name ps w)))) = (j = i))"
  let ?op = "\<lambda>prompt. generate_text c cfg env prompt model_name ps"
  have i: "i < length prompts" using h by blast
  have one: "\<forall>j<length prompts. isl (fst (?op (prompts ! j) (snd (batch_loop ?op (take j prompts) [] w)))) = (j = i)"
    using h unfolding batch_generate_text_def by blast
  show "length (fst (batch_generate_text c cfg env prompts model_name ps w)) = length prompts"
    unfolding batch_generate_text_def by (rule batch_loop_single_failure(1)[OF i one])
  show "\<exists>e. fst (generate_text c cfg env (prompts ! i) model_name ps
                      (snd (batch_generate_text c cfg env (take i prompts) model_name ps w))) = Inl e
               \<and> fst (batch_generate_text c cfg env prompts model_name ps w) ! i
                   = Failed (err_str e) (prompts ! i) ''failed''"
    unfolding batch_generate_text_def by (rule batch_loop_single_failure(2)[OF i one])
  show "\<forall>j<length prompts. j \<noteq> i \<longrightarrow>
              (\<exists>r. fst (generate_text c cfg env (prompts ! j) model_name ps
                          (snd (batch_generate_text c cfg env (take j prompts) model_name ps w))) = Inr r
                   \<and> fst (batch_generate_text c cfg env prompts model_name ps w) ! j = Succeeded r)"
    unfolding batch_generate_text_def by (rule batch_loop_single_failure(3)[OF i one])
  show "length (filter no_error_key (fst (batch_generate_text c cfg env prompts model_name ps w)))
            = length prompts - 1"
    unfolding batch_generate_text_def by (rule batch_loop_single_failure(4)[OF i one])
next
  assume h: "i' < length contents
      \<and> (\<forall>j<length contents.
            isl (fst (generate_embedding c cfg env (contents ! j) content_type embedding_model kw
                   (snd (batch_generate_embeddings c cfg env (take j contents) content_type embedding_model kw w))))
              = (j = i'))"
  let ?op = "\<lambda>content. generate_embedding c cfg env content content_type embedding_model kw"
  have i: "i' < length contents" using h by blast
  have one: "\<forall>j<length contents. isl (fst (?op (contents ! j) (snd (batch_loop ?op (take j contents) [] w)))) = (j = i')"
    using h unfolding batch_generate_embeddings_def by blast
  show "length (fst (batch_generate_embeddings c cfg env contents content_type embedding_model kw w))
          = length contents"
    unfolding batch_generate_embeddings_def by (rule batch_loop_single_failure(1)[OF i one])
  show "\<exists>e. fst (generate_embedding c cfg env (contents ! i') content_type embedding_model kw
                      (snd (batch_generate_embeddings c cfg env (take i' contents) content_type embedding_model kw w)))
                  = Inl e
               \<and> fst (batch_generate_embeddings c cfg env contents content_type embedding_model kw w) ! i'
                   = Failed (err_str e) (contents ! i') ''failed''"
    unfolding batch_generate_embeddings_def by (rule batch_loop_single_failure(2)[OF i one])
  show "\<forall>j<length contents. j \<noteq> i' \<longrightarrow>
              (\<exists>r. fst (generate_embedding c cfg env (contents ! j) content_type embedding_model kw
                          (snd (batch_generate_embeddings c cfg env (take j contents) content_type embedding_model kw w)))
                      = Inr r
                   \<and> fst (batch_generate_embeddings c cfg env contents content_type embedding_model kw w) ! j
                       = Succeeded r)"
    unfolding batch_generate_embeddings_def by (rule batch_loop_single_failure(3)[OF i one])
  show "length (filter no_error_key
                     (fst (batch_generate_embeddings c cfg env contents content_type embedding_model kw w)))
            = length contents - 1"
    unfolding batch_generate_embeddings_def by (rule batch_loop_single_failure(4)[OF i one])
qed

lemma gen_text_ok:
  "prompt \<noteq> ''b'' \<Longrightarrow> isl (fst (generate_text (failing_on ''b'') object_config example_env prompt m default_params w)) = False"
  by (simp add: generate_text_def failing_on_def draw_uuid_def client_query_def Let_def dict_get_def)

lemma gen_text_bad:
  "fst (generate_text (failing_on ''b'') object_config example_env ''b'' m default_params w) = Inl (ClientError ''boom'')"
  by (simp add: generate_text_def failing_on_def draw_uuid_def client_query_def Let_def)

lemma gen_emb_ok:
  "content \<noteq> ''b'' \<Longrightarrow> isl (fst (generate_embedding (failing_on ''b'') object_config example_env content ct m [] w)) = False"
  by (simp add: generate_embedding_def failing_on_def draw_uuid_def client_query_def Let_def dict_get_def)

lemma gen_emb_bad:
  "fst (generate_embedding (failing_on ''b'') object_config example_env ''b'' ct m [] w) = Inl (ClientError ''boom'')"
  by (simp add: generate_embedding_def failing_on_def draw_uuid_def client_query_def Let_def)

lemma all_less_3: "(\<forall>j<Suc (Suc (Suc 0)). P j) = (P 0 \<and> P (Suc 0) \<and> P (Suc (Suc 0)))"
  by (auto simp: less_Suc_eq)

text \<open>
  Claim C3 at three inputs of which the second makes the warehouse query raise, for both
  batch operations.
\<close>

theorem batch_isolates_single_failure_witness:
  "length (fst (batch_generate_text (failing_on ''b'') object_config example_env [''a'', ''b'', ''c'']
             ''gemini-pro'' default_params fresh_world)) = 3
   \<and> fst (batch_generate_text (failing_on ''b'') object_config example_env [''a'', ''b'', ''c'']
             ''gemini-pro'' default_params fresh_world) ! 1 = Failed ''boom'' ''b'' ''failed''
   \<and> length (filter no_error_key (fst (batch_generate_text (failing_on ''b'') object_config example_env
             [''a'', ''b'', ''c''] ''gemini-pro'' default_params fresh_world))) = 2
   \<and> length (fst (batch_generate_embeddings (failing_on ''b'') object_config example_env [''a'', ''b'', ''c'']
             ''text'' ''text-embedding-001'' [] fresh_world)) = 3
   \<and> fst (batch_generate_embeddings (failing_on ''b'') object_config example_env [''a'', ''b'', ''c'']
             ''text'' ''text-embedding-001'' [] fresh_world) ! 1 = Failed ''boom'' ''b'' ''failed''
   \<and> length (filter no_error_key (fst (batch_generate_embeddings (failing_on ''b'') object_config example_env
             [''a'', ''b'', ''c''] ''text'' ''text-embedding-001'' [] fresh_world))) = 2"
proof -
  have ht: "1 < length [''a'', ''b'', ''c'']
      \<and> (\<forall>j<length [''a'', ''b'', ''c''].
            isl (fst (generate_text (failing_on ''b'') object_config example_env ([''a'', ''b'', ''c''] ! j)
                   ''gemini-pro'' default_params
                   (snd (batch_generate_text (failing_on ''b'') object_config example_env
                          (take j [''a'', ''b'', ''c'']) ''gemini-pro'' default_params fresh_world)))) = (j = 1))"
    by (simp add: all_less_3 gen_text_ok gen_text_bad)
  have he: "1 < length [''a'', ''b'', ''c'']
      \<and> (\<forall>j<length [''a'', ''b'', ''c''].
            isl (fst (generate_embedding (failing_on ''b'') object_config example_env ([''a'', ''b'', ''c''] ! j)
                   ''text'' ''text-embedding-001'' []
                   (snd (batch_generate_embeddings (failing_on ''b'') object_config example_env
                          (take j [''a'', ''b'', ''c'']) ''text'' ''text-embedding-001'' [] fresh_world)))) = (j = 1))"
    by (simp add: all_less_3 gen_emb_ok gen_emb_bad)
  note t = batch_isolates_single_failure [THEN conjunct1, THEN mp, OF ht]
  note e = batch_isolates_single_failure [THEN conjunct2, THEN mp, OF he]
  show ?thesis
    using t e by (auto simp: gen_text_bad gen_emb_bad)
qed

section \<open>Failures of the audit insert\<close>

text \<open>
  The value an operation returns depends on the client only through its answers to
  queries: what \<open>insert_rows_json\<close> does cannot reach the caller.
\<close>

lemma generate_text_ignores_inserts:
  assumes "on_query c' = on_query c"
  shows "fst (generate_text c' cfg env prompt model_name ps w) = fst (generate_text c cfg env prompt model_name ps w)"
  using assms
  by (simp add: generate_text_def draw_uuid_def client_query_def Let_def
      split: query_outcome.splits list.splits sum.splits)

lemma generate_embedding_ignores_inserts:
  assumes "on_query c' = on_query c"
  shows "fst (generate_embedding c' cfg env content content_type model_name kw w)
       = fst (generate_embedding c cfg env content content_type model_name kw w)"
  using assms
  by (simp add: generate_embedding_def draw_uuid_def client_query_def Let_def
      split: query_outcome.splits list.splits sum.splits)

lemma search_similar_ignores_inserts:
  assumes "on_query c' = on_query c"
  shows "fst (search_similar c' cfg env query_embedding table_id embedding_column k distance_type w)
       = fst (search_similar c cfg env query_embedding table_id embedding_column k distance_type w)"
  using assms
  by (simp add: search_similar_def draw_uuid_def client_query_def Let_def
      split: query_outcome.splits)

text \<open>
  Claim C4. Let the audit insert fail, by raising or by returning a non-empty list of row
  errors. Whenever text generation, embedding generation or vector search returns a
  success record with an audit insert that succeeds, it returns the same record with the
  failing one.
\<close>

theorem audit_failure_never_propagates:
  assumes "bad = InsertRaises e \<or> (bad = InsertErrors errs \<and> errs \<noteq> [])"
  shows "(fst (generate_text (c\<lparr>on_insert_rows_json := (\<lambda>h t. InsertErrors [])\<rparr>) cfg env prompt text_model ps w) = Inr r
          \<longrightarrow> fst (generate_text (c\<lparr>on_insert_rows_json := (\<lambda>h t. bad)\<rparr>) cfg env prompt text_model ps w) = Inr r)
       \<and> (fst (generate_embedding (c\<lparr>on_insert_rows_json := (\<lambda>h t. InsertErrors [])\<rparr>) cfg env content content_type
                embedding_model kw w) = Inr r'
          \<longrightarrow> fst (generate_embedding (c\<lparr>on_insert_rows_json := (\<lambda>h t. bad)\<rparr>) cfg env content content_type
                embedding_model kw w) = Inr r')
       \<and> (fst (search_similar (c\<lparr>on_insert_rows_json := (\<lambda>h t. InsertErrors [])\<rparr>) cfg env query_embedding
                table_id embedding_column k distance_type w) = Inr r''
          \<longrightarrow> fst (search_similar (c\<lparr>on_insert_rows_json := (\<lambda>h t. bad)\<rparr>) cfg env query_embedding
                table_id embedding_column k distance_type w) = Inr r'')"
proof -
  let ?ok = "c\<lparr>on_insert_rows_json := (\<lambda>h t. InsertErrors [])\<rparr>"
  let ?bad = "c\<lparr>on_insert_rows_json := (\<lambda>h t. bad)\<rparr>"
  have q: "on_query ?bad = on_query ?ok" by simp
  show ?thesis
    using generate_text_ignores_inserts[OF q] generate_embedding_ignores_inserts[OF q]
      search_similar_ignores_inserts[OF q]
    by simp
qed

text \<open>
  Claim C4 at clients whose query returns one row and whose audit insert raises, or
  reports a row error: the success records are returned unchanged.
\<close>

theorem audit_failure_never_propagates_witness:
  "fst (generate_text
          ((scripted_client (QueryRows [[(''generated_text'', PStr ''ok'')]] None) (InsertErrors []))
             \<lparr>on_insert_rows_json := (\<lambda>h t. InsertRaises (ClientError ''insert failed''))\<rparr>)
          object_config example_env ''hello'' ''gemini-pro'' default_params fresh_world)
     = Inr \<lparr>tg_id = ''uuid-0'', tg_generated_text = PStr ''ok'', tg_model_name = ''gemini-pro'',
            tg_parameters = default_params, tg_input_length = 5, tg_output_length = 2,
            tg_timestamp = None\<rparr>
   \<and> fst (generate_text
          ((scripted_client (QueryRows [[(''generated_text'', PStr ''ok'')]] None) (InsertErrors []))
             \<lparr>on_insert_rows_json := (\<lambda>h t. InsertErrors [PStr ''row rejected''])\<rparr>)
          object_config example_env ''hello'' ''gemini-pro'' default_params fresh_world)
     = Inr \<lparr>tg_id = ''uuid-0'', tg_generated_text = PStr ''ok'', tg_model_name = ''gemini-pro'',
            tg_parameters = default_params, tg_input_length = 5, tg_output_length = 2,
            tg_timestamp = None\<rparr>
   \<and> fst (generate_embedding
          ((scripted_client (QueryRows [[(''ml_generate_embedding_result'', PList [PFloat 1, PFloat 2])]] None)
              (InsertErrors []))
             \<lparr>on_insert_rows_json := (\<lambda>h t. InsertRaises (ClientError ''insert failed''))\<rparr>)
          object_config example_env ''hello'' ''text'' ''text-embedding-001'' [] fresh_world)
     = Inr \<lparr>er_id = ''uuid-0'', er_content_type = ''text'', er_content_hash = ''sha256-of-hello'',
            er_embedding_vector = PList [PFloat 1, PFloat 2], er_model_name = ''text-embedding-001'',
            er_dimensions = PInt 2, er_metadata = PDict [], er_created_at = None\<rparr>
   \<and> fst (search_similar
          ((scripted_client (QueryRows [[(''id'', PStr ''d1''), (''similarity_score'', PFloat 1)]] None)
              (InsertErrors []))
             \<lparr>on_insert_rows_json := (\<lambda>h t. InsertRaises (ClientError ''insert failed''))\<rparr>)
          object_config example_env [1, 2] ''proj.ds.embeddings'' ''embedding_vector'' 10 ''cosine'' fresh_world)
     = Inr \<lparr>sr_id = ''uuid-0'', sr_results = [(PFloat 1, [(''id'', PStr ''d1'')])], sr_total_results = 1,
            sr_metadata = [(''query_vector_dimensions'', PInt 2), (''distance_type'', PStr ''cosine''),
                           (''top_k'', PInt 10), (''table_id'', PStr ''proj.ds.embeddings''),
                           (''embedding_column'', PStr ''embedding_vector'')]\<rparr>"
proof -
  let ?ct = "scripted_client (QueryRows [[(''generated_text'', PStr ''ok'')]] None) (InsertErrors [])"
  let ?ce = "scripted_client (QueryRows [[(''ml_generate_embedding_result'', PList [PFloat 1, PFloat 2])]] None)
              (InsertErrors [])"
  let ?cs = "scripted_client (QueryRows [[(''id'', PStr ''d1''), (''similarity_score'', PFloat 1)]] None)
              (InsertErrors [])"
  have raises: "InsertRaises (ClientError ''insert failed'') = InsertRaises (ClientError ''insert failed'')
      \<or> (InsertRaises (ClientError ''insert failed'') = InsertErrors [] \<and> ([]::pyval list) \<noteq> [])"
    by simp
  have errors: "InsertErrors [PStr ''row rejected''] = InsertRaises (ClientError ''insert failed'')
      \<or> (InsertErrors [PStr ''row rejected''] = InsertErrors [PStr ''row rejected''] \<and> [PStr ''row rejected''] \<noteq> [])"
    by simp
  have u0: "str_nat 0 = ''0''" by (simp add: str_nat.simps digit_char_def)
  have ok_t: "fst (generate_text (?ct\<lparr>on_insert_rows_json := (\<lambda>h t. InsertErrors [])\<rparr>)
          object_config example_env ''hello'' ''gemini-pro'' default_params fresh_world)
     = Inr \<lparr>tg_id = ''uuid-0'', tg_generated_text = PStr ''ok'', tg_model_name = ''gemini-pro'',
            tg_parameters = default_params, tg_input_length = 5, tg_output_length = 2,
            tg_timestamp = None\<rparr>"
    by (simp add: generate_text_def scripted_client_def draw_uuid_def client_query_def Let_def
        dict_get_def example_env_def fresh_world_def u0)
  have ok_e: "fst (generate_embedding (?ce\<lparr>on_insert_rows_json := (\<lambda>h t. InsertErrors [])\<rparr>)
          object_config example_env ''hello'' ''text'' ''text-embedding-001'' [] fresh_world)
     = Inr \<lparr>er_id = ''uuid-0'', er_content_type = ''text'', er_content_hash = ''sha256-of-hello'',
            er_embedding_vector = PList [PFloat 1, PFloat 2], er_model_name = ''text-embedding-001'',
            er_dimensions = PInt 2, er_metadata = PDict [], er_created_at = None\<rparr>"
    by (simp add: generate_embedding_def scripted_client_def draw_uuid_def client_query_def Let_def
        dict_get_def example_env_def fresh_world_def u0)
  have ok_s: "fst (search_similar (?cs\<lparr>on_insert_rows_json := (\<lambda>h t. InsertErrors [])\<rparr>)
          object_config example_env [1, 2] ''proj.ds.embeddings'' ''embedding_vector'' 10 ''cosine'' fresh_world)
     = Inr \<lparr>sr_id = ''uuid-0'', sr_results = [(PFloat 1, [(''id'', PStr ''d1'')])], sr_total_results = 1,
            sr_metadata = [(''query_vector_dimensions'', PInt 2), (''distance_type'', PStr ''cosine''),
                           (''top_k'', PInt 10), (''table_id'', PStr ''proj.ds.embeddings''),
                           (''embedding_column'', PStr ''embedding_vector'')]\<rparr>"
    by (simp add: search_similar_def scripted_client_def draw_uuid_def client_query_def Let_def
        dict_get_def example_env_def fresh_world_def u0 process_search_results_def)
  note t1 = audit_failure_never_propagates [OF raises, THEN conjunct1, THEN mp, OF ok_t]
  note t2 = audit_failure_never_propagates [OF errors, THEN conjunct1, THEN mp, OF ok_t]
  note t3 = audit_failure_never_propagates [OF raises, THEN conjunct2, THEN conjunct1, THEN mp, OF ok_e]
  note t4 = audit_failure_never_propagates [OF raises, THEN conjunct2, THEN conjunct2, THEN mp, OF ok_s]
  show ?thesis using t1 t2 t3 t4 by simp
qed

section \<open>Dimensions of embedding records\<close>

lemma and_then_Inr: "(and_then r f = Inr y) = (\<exists>x. r = Inr x \<and> f x = Inr y)"
  by (cases r) (simp_all add: and_then_def)

lemma row_attr_Inr: "(row_attr r k = Inr v) = (map_of r k = Some v)"
  by (simp add: row_attr_def split: option.splits)

lemma stored_embedding_of_row_copies:
  assumes "stored_embedding_of_row r = Inr s"
  shows "map_of r ''dimensions'' = Some (se_dimensions s)"
    and "map_of r ''embedding_vector'' = Some (se_embedding_vector s)"
  using assms unfolding stored_embedding_of_row_def and_then_Inr row_attr_Inr
  by auto

lemma generate_embedding_dimensions:
  assumes "fst (generate_embedding c cfg env content content_type model_name kw w) = Inr r"
  shows "dimensions_match (er_dimensions r) (er_embedding_vector r)"
  using assms
  by (auto simp: generate_embedding_def draw_uuid_def client_query_def Let_def dimensions_match_def
      split: query_outcome.splits list.splits sum.splits)

text \<open>
  Claim C8, as amended. In every record \<open>generate_embedding\<close> returns, \<open>dimensions\<close> is
  the length of \<open>embedding_vector\<close>. A record returned by \<open>get_embedding_by_hash\<close> holds
  the \<open>dimensions\<close> and the \<open>embedding_vector\<close> columns of the first row the warehouse
  returned, each copied unchanged: the two agree in the record exactly when they agree in
  the stored row.
\<close>

theorem embedding_dimensions:
  "(fst (generate_embedding c cfg env content content_type model_name kw w) = Inr r
      \<longrightarrow> dimensions_match (er_dimensions r) (er_embedding_vector r))
   \<and> (fst (get_embedding_by_hash c cfg content_hash w) = Some s
      \<longrightarrow> (\<exists>table_id row rs ended.
             get_full_table_id cfg ''embeddings'' = Inr table_id
           \<and> on_query c (calls w) (EmbeddingByHashQuery table_id content_hash) = QueryRows (row # rs) ended
           \<and> map_of row ''dimensions'' = Some (se_dimensions s)
           \<and> map_of row ''embedding_vector'' = Some (se_embedding_vector s)))"
proof (intro conjI impI)
  assume "fst (generate_embedding c cfg env content content_type model_name kw w) = Inr r"
  then show "dimensions_match (er_dimensions r) (er_embedding_vector r)"
    by (rule generate_embedding_dimensions)
next
  assume h: "fst (get_embedding_by_hash c cfg content_hash w) = Some s"
  then obtain table_id where t: "get_full_table_id cfg ''embeddings'' = Inr table_id"
    by (cases "get_full_table_id cfg ''embeddings''") (simp_all add: get_embedding_by_hash_def)
  let ?q = "on_query c (calls w) (EmbeddingByHashQuery table_id content_hash)"
  from h t obtain row rs ended where q: "?q = QueryRows (row # rs) ended"
    and s: "stored_embedding_of_row row = Inr s"
    by (auto simp: get_embedding_by_hash_def client_query_def Let_def
        split: query_outcome.splits list.splits sum.splits)
  show "\<exists>table_id row rs ended.
             get_full_table_id cfg ''embeddings'' = Inr table_id
           \<and> on_query c (calls w) (EmbeddingByHashQuery table_id content_hash) = QueryRows (row # rs) ended
           \<and> map_of row ''dimensions'' = Some (se_dimensions s)
           \<and> map_of row ''embedding_vector'' = Some (se_embedding_vector s)"
    using t q stored_embedding_of_row_copies[OF s] by blast
qed

text \<open>
  Claim C8 as stated fails for the lookup by hash: a stored row whose \<open>dimensions\<close> column
  is 3 and whose vector has two components is returned as it is.
\<close>

theorem stored_dimensions_counterexample:
  "fst (get_embedding_by_hash
          (scripted_client
             (QueryRows [[(''id'', PStr ''e1''), (''content_type'', PStr ''text''), (''content_hash'', PStr ''abc''),
                          (''embedding_vector'', PList [PFloat 1, PFloat 2]), (''model_name'', PStr ''m''),
                          (''dimensions'', PInt 3), (''metadata'', PNone), (''created_at'', PNone),
                          (''updated_at'', PNone)]] None)
             (InsertErrors []))
          object_config ''abc'' fresh_world)
     = Some \<lparr>se_id = PStr ''e1'', se_content_type = PStr ''text'', se_content_hash = PStr ''abc'',
             se_embedding_vector = PList [PFloat 1, PFloat 2], se_model_name = PStr ''m'',
             se_dimensions = PInt 3, se_metadata = PNone, se_created_at = PNone, se_updated_at = PNone\<rparr>
   \<and> \<not> dimensions_match (PInt 3) (PList [PFloat 1, PFloat 2])"
  by (simp add: get_embedding_by_hash_def scripted_client_def client_query_def Let_def object_config_def
      stored_embedding_of_row_def and_then_def row_attr_def dimensions_match_def fresh_world_def)

text \<open>
  The amended claim C8 at a generated embedding of two components, and at the lookup of
  the stored row above.
\<close>

theorem embedding_dimensions_witness:
  "dimensions_match (PInt 2) (PList [PFloat 1, PFloat 2])
   \<and> map_of [(''id'', PStr ''e1''), (''content_type'', PStr ''text''), (''content_hash'', PStr ''abc''),
              (''embedding_vector'', PList [PFloat 1, PFloat 2]), (''model_name'', PStr ''m''),
              (''dimensions'', PInt 3), (''metadata'', PNone), (''created_at'', PNone),
              (''updated_at'', PNone)] ''dimensions'' = Some (PInt 3)"
proof -
  let ?ce = "scripted_client (QueryRows [[(''ml_generate_embedding_result'', PList [PFloat 1, PFloat 2])]] None)
              (InsertErrors [])"
  let ?row = "[(''id'', PStr ''e1''), (''content_type'', PStr ''text''), (''content_hash'', PStr ''abc''),
               (''embedding_vector'', PList [PFloat 1, PFloat 2]), (''model_name'', PStr ''m''),
               (''dimensions'', PInt 3), (''metadata'', PNone), (''created_at'', PNone),
               (''updated_at'', PNone)]"
  let ?ch = "scripted_client (QueryRows [?row] None) (InsertErrors [])"
  let ?s = "\<lparr>se_id = PStr ''e1'', se_content_type = PStr ''text'', se_content_hash = PStr ''abc'',
             se_embedding_vector = PList [PFloat 1, PFloat 2], se_model_name = PStr ''m'',
             se_dimensions = PInt 3, se_metadata = PNone, se_created_at = PNone, se_updated_at = PNone\<rparr>"
  have u0: "str_nat 0 = ''0''" by (simp add: str_nat.simps digit_char_def)
  have g: "fst (generate_embedding ?ce object_config example_env ''hello'' ''text'' ''text-embedding-001'' [] fresh_world)
     = Inr \<lparr>er_id = ''uuid-0'', er_content_type = ''text'', er_content_hash = ''sha256-of-hello'',
            er_embedding_vector = PList [PFloat 1, PFloat 2], er_model_name = ''text-embedding-001'',
            er_dimensions = PInt 2, er_metadata = PDict [], er_created_at = None\<rparr>"
    by (simp add: generate_embedding_def scripted_client_def draw_uuid_def client_query_def Let_def
        dict_get_def example_env_def fresh_world_def u0)
  have l: "fst (get_embedding_by_hash ?ch object_config ''abc'' fresh_world) = Some ?s"
    by (simp add: get_embedding_by_hash_def scripted_client_def client_query_def Let_def object_config_def
        stored_embedding_of_row_def and_then_def row_attr_def fresh_world_def)
  note a = embedding_dimensions [THEN conjunct1, THEN mp, OF g]
  note b = embedding_dimensions [THEN conjunct2, THEN mp, OF l]
  show ?thesis using a b by (auto simp: scripted_client_def)
qed

section \<open>The batch endpoints\<close>

text \<open>
  Claim C10. A batch request with an empty item list makes each batch handler raise
  \<open>HTTPException\<close> with status 500 (\<open>requests[0]\<close> raises \<open>IndexError\<close> inside the
  handler's \<open>try\<close>). For a non-empty list the handler calls the batch operation with
  the prompts (contents) of all items and the model name and parameters of the first item
  only; hence two requests with the same first item and the same prompts (contents) in
  the later items give the same response and the same calls, whatever parameters the
  later items carry.
\<close>

theorem batch_endpoint_first_item_parameters:
  "fst (api_batch_generate_text c cfg env [] w)
     = Inl (HTTPException 500 ''Batch text generation failed: list index out of range'')
   \<and> fst (api_batch_generate_embeddings c cfg env [] w)
     = Inl (HTTPException 500 ''Batch embedding generation failed: list index out of range'')
   \<and> api_batch_generate_text c cfg env (first_req # rest) w
     = (let (result, w') =
              batch_generate_text c cfg env (req_prompt first_req # map req_prompt rest) (req_model_name first_req)
                \<lparr>temperature = req_temperature first_req, max_tokens = req_max_tokens first_req,
                 top_p = req_top_p first_req, top_k = req_top_k first_req, kwargs = []\<rparr> w
        in (Inr \<lparr>results = result, total_processed = length result,
                 successful = length (filter no_error_key result)\<rparr>, w'))
   \<and> api_batch_generate_embeddings c cfg env (efirst # erest) w
     = (let (result, w') =
              batch_generate_embeddings c cfg env (ereq_content efirst # map ereq_content erest)
                (ereq_content_type efirst) (ereq_model_name efirst) [] w
        in (Inr \<lparr>results = result, total_processed = length result,
                 successful = length (filter no_error_key result)\<rparr>, w'))
   \<and> (map req_prompt rest = map req_prompt rest'
        \<longrightarrow> api_batch_generate_text c cfg env (first_req # rest) w
            = api_batch_generate_text c cfg env (first_req # rest') w)
   \<and> (map ereq_content erest = map ereq_content erest'
        \<longrightarrow> api_batch_generate_embeddings c cfg env (efirst # erest) w
            = api_batch_generate_embeddings c cfg env (efirst # erest') w)"
  by (simp add: api_batch_generate_text_def api_batch_generate_embeddings_def first_item_def Let_def)

text \<open>
  Claim C10 at two-item requests whose second item carries other parameters: the response
  is that of the request whose second item carries the first item's parameters, and the
  second result reports the first item's model and parameters.
\<close>

theorem batch_endpoint_first_item_parameters_witness:
  "api_batch_generate_text (failing_on ''zzz'') object_config example_env
       [\<lparr>req_prompt = ''a'', req_model_name = ''gemini-pro'', req_temperature = 0.7,
          req_max_tokens = 1024, req_top_p = 0.9, req_top_k = 40\<rparr>,
        \<lparr>req_prompt = ''b'', req_model_name = ''other-model'', req_temperature = 0.1,
          req_max_tokens = 16, req_top_p = 0.5, req_top_k = 3\<rparr>] fresh_world
     = api_batch_generate_text (failing_on ''zzz'') object_config example_env
       [\<lparr>req_prompt = ''a'', req_model_name = ''gemini-pro'', req_temperature = 0.7,
          req_max_tokens = 1024, req_top_p = 0.9, req_top_k = 40\<rparr>,
        \<lparr>req_prompt = ''b'', req_model_name = ''gemini-pro'', req_temperature = 0.7,
          req_max_tokens = 1024, req_top_p = 0.9, req_top_k = 40\<rparr>] fresh_world
   \<and> results (projr (fst (api_batch_generate_text (failing_on ''zzz'') object_config example_env
       [\<lparr>req_prompt = ''a'', req_model_name = ''gemini-pro'', req_temperature = 0.7,
          req_max_tokens = 1024, req_top_p = 0.9, req_top_k = 40\<rparr>,
        \<lparr>req_prompt = ''b'', req_model_name = ''other-model'', req_temperature = 0.1,
          req_max_tokens = 16, req_top_p = 0.5, req_top_k = 3\<rparr>] fresh_world))) ! 1
     = Succeeded \<lparr>tg_id = ''uuid-1'', tg_generated_text = PStr ''ok'', tg_model_name = ''gemini-pro'',
                  tg_parameters = default_params, tg_input_length = 1, tg_output_length = 2,
                  tg_timestamp = None\<rparr>
   \<and> api_batch_generate_embeddings (failing_on ''zzz'') object_config example_env
       [\<lparr>ereq_content = ''a'', ereq_content_type = ''text'', ereq_model_name = ''text-embedding-001''\<rparr>,
        \<lparr>ereq_content = ''b'', ereq_content_type = ''image'', ereq_model_name = ''other-model''\<rparr>] fresh_world
     = api_batch_generate_embeddings (failing_on ''zzz'') object_config example_env
       [\<lparr>ereq_content = ''a'', ereq_content_type = ''text'', ereq_model_name = ''text-embedding-001''\<rparr>,
        \<lparr>ereq_content = ''b'', ereq_content_type = ''text'', ereq_model_name = ''text-embedding-001''\<rparr>] fresh_world"
proof -
  let ?f = "\<lparr>req_prompt = ''a'', req_model_name = ''gemini-pro'', req_temperature = 0.7,
          req_max_tokens = 1024, req_top_p = 0.9, req_top_k = 40\<rparr>"
  let ?s = "\<lparr>req_prompt = ''b'', req_model_name = ''other-model'', req_temperature = 0.1,
          req_max_tokens = 16, req_top_p = 0.5, req_top_k = 3\<rparr>"
  let ?s' = "\<lparr>req_prompt = ''b'', req_model_name = ''gemini-pro'', req_temperature = 0.7,
          req_max_tokens = 1024, req_top_p = 0.9, req_top_k = 40\<rparr>"
  let ?ef = "\<lparr>ereq_content = ''a'', ereq_content_type = ''text'', ereq_model_name = ''text-embedding-001''\<rparr>"
  let ?es = "\<lparr>ereq_content = ''b'', ereq_content_type = ''image'', ereq_model_name = ''other-model''\<rparr>"
  let ?es' = "\<lparr>ereq_content = ''b'', ereq_content_type = ''text'', ereq_model_name = ''text-embedding-001''\<rparr>"
  have p: "map req_prompt [?s] = map req_prompt [?s']" by simp
  have pe: "map ereq_content [?es] = map ereq_content [?es']" by simp
  note inst = batch_endpoint_first_item_parameters
    [where c = "failing_on ''zzz''" and cfg = object_config and env = example_env and w = fresh_world
       and first_req = ?f and rest = "[?s]" and rest' = "[?s']"
       and efirst = ?ef and erest = "[?es]" and erest' = "[?es']"]
  note same_t = inst [THEN conjunct2, THEN conjunct2, THEN conjunct2, THEN conjunct2, THEN conjunct1, THEN mp, OF p]
  note same_e = inst [THEN conjunct2, THEN conjunct2, THEN conjunct2, THEN conjunct2, THEN conjunct2, THEN mp, OF pe]
  have u1: "str_nat (Suc 0) = ''1''" by (simp add: str_nat.simps digit_char_def)
  have second: "results (projr (fst (api_batch_generate_text (failing_on ''zzz'') object_config example_env
       [?f, ?s] fresh_world))) ! 1
     = Succeeded \<lparr>tg_id = ''uuid-1'', tg_generated_text = PStr ''ok'', tg_model_name = ''gemini-pro'',
                  tg_parameters = default_params, tg_input_length = 1, tg_output_length = 2,
                  tg_timestamp = None\<rparr>"
    by (simp add: api_batch_generate_text_def first_item_def batch_generate_text_def generate_text_def
        failing_on_def draw_uuid_def client_query_def Let_def dict_get_def example_env_def fresh_world_def
        store_generation_def audit_insert_def object_config_def client_insert_rows_json_def
        default_params_def u1)
  show ?thesis using same_t same_e second by simp
qed

end
